theory Spec2Isabelle
  imports Main
begin

section \<open>JavaScript values used by the build pipeline\<close>

text \<open>
  The source is the TypeScript module behind \<^verbatim>\<open>vivliostyle build\<close>. Every \<^verbatim>\<open>throw\<close> of
  the module and every failure of an external call is a value of \<open>error\<close>: the module
  itself only throws plain \<^verbatim>\<open>Error\<close> objects with a message; the browser automation
  library throws its own timeout error when a wait runs out of time.
\<close>

datatype error = Error string | TimeoutError

text \<open>
  An optional string (\<^verbatim>\<open>string | undefined\<close>) is a \<open>string option\<close>. JavaScript's
  \<^verbatim>\<open>a || b\<close> yields \<^verbatim>\<open>a\<close> when it is truthy and \<^verbatim>\<open>b\<close> otherwise; \<^verbatim>\<open>undefined\<close> and the
  empty string are falsy.
\<close>

definition truthy :: "string option \<Rightarrow> bool" where
  "truthy v = (case v of None \<Rightarrow> False | Some s \<Rightarrow> s \<noteq> [])"

definition or_else :: "string option \<Rightarrow> string option \<Rightarrow> string option" where
  "or_else a b = (if truthy a then a else b)"

text \<open>\<^verbatim>\<open>s.endsWith(suffix)\<close> and \<^verbatim>\<open>s.split(',')\<close>.\<close>

definition endsWith :: "string \<Rightarrow> string \<Rightarrow> bool" where
  "endsWith s suffix =
     (length suffix \<le> length s \<and> drop (length s - length suffix) s = suffix)"

fun split_on :: "char \<Rightarrow> string \<Rightarrow> string list" where
  "split_on c [] = [[]]"
| "split_on c (x # xs) =
     (if x = c then [] # split_on c xs
      else (case split_on c xs of
              [] \<Rightarrow> [[x]]
            | y # ys \<Rightarrow> (x # y) # ys))"

text \<open>
  A page size is \<^verbatim>\<open>number | string\<close>. Of a number the module asks two things only:
  whether it is truthy (0 and \<^verbatim>\<open>NaN\<close> are not), and what the template literal
  \<^verbatim>\<open>`${size}`\<close> prints for it (\<^verbatim>\<open>210\<close>, \<^verbatim>\<open>1.5\<close>, \<^verbatim>\<open>1e+21\<close>: digits, a sign, a point or an
  exponent, never a comma). A number is modelled by these two answers.
\<close>

record JsNumber =
  num_truthy :: bool
  num_text :: string

datatype size_val = SizeNum JsNumber | SizeStr string

fun size_truthy :: "size_val \<Rightarrow> bool" where
  "size_truthy (SizeNum n) = num_truthy n"
| "size_truthy (SizeStr s) = (s \<noteq> [])"

fun size_string :: "size_val \<Rightarrow> string" where
  "size_string (SizeNum n) = num_text n"
| "size_string (SizeStr s) = s"

section \<open>Page size parsing\<close>

datatype PageSize = WidthHeight string string | Format string

text \<open>
  \<^verbatim>\<open>parsePageSize\<close>: the destructuring \<^verbatim>\<open>[width, height, ...others]\<close> reads the first two
  components (\<^verbatim>\<open>undefined\<close> when missing) and collects the rest.
\<close>

definition nth_opt :: "'a list \<Rightarrow> nat \<Rightarrow> 'a option" where
  "nth_opt xs i = (if i < length xs then Some (xs ! i) else None)"

definition parsePageSize :: "size_val \<Rightarrow> error + PageSize" where
  "parsePageSize sz =
     (let parts = (if size_truthy sz then split_on CHR '','' (size_string sz) else []);
          width = nth_opt parts 0;
          height = nth_opt parts 1;
          others = drop 2 parts
      in if others \<noteq> [] then Inl (Error (''Cannot parse size: '' @ size_string sz))
         else if truthy width \<and> truthy height
         then Inr (WidthHeight (the width) (the height))
         else Inr (Format (if truthy width then the width else ''Letter'')))"

section \<open>Data model\<close>

text \<open>
  The interfaces of the module. Field names carry a prefix per record, since several
  records of the source share the names \<^verbatim>\<open>title\<close>, \<^verbatim>\<open>theme\<close> and \<^verbatim>\<open>path\<close>.
\<close>

record Entry =
  e_path :: string
  e_title :: "string option"
  e_theme :: "string option"

datatype theme_type = Path | Uri

record ParsedTheme =
  t_type :: theme_type
  t_name :: string
  t_location :: string

datatype doc_type = Markdown | Html

record ParsedEntry =
  pe_type :: doc_type
  pe_title :: "string option"
  pe_theme :: "ParsedTheme option"
  pe_source_path :: string
  pe_source_dir :: string
  pe_target_path :: string
  pe_target_dir :: string

text \<open>\<^verbatim>\<open>toc?: boolean | string\<close> and \<^verbatim>\<open>entry: string | string[] | Entry | Entry[]\<close>.\<close>

datatype toc_val = TocBool bool | TocStr string

fun toc_truthy :: "toc_val \<Rightarrow> bool" where
  "toc_truthy (TocBool b) = b"
| "toc_truthy (TocStr s) = (s \<noteq> [])"

datatype raw_entry = EStr string | EObj Entry

datatype entry_field = One raw_entry | Many "raw_entry list"

record VivliostyleConfig =
  cfg_title :: "string option"
  cfg_author :: "string option"
  cfg_language :: "string option"
  cfg_theme :: "string option"
  cfg_outDir :: "string option"
  cfg_outFile :: "string option"
  cfg_entry :: "entry_field option"
  cfg_entryContext :: "string option"
  cfg_toc :: "toc_val option"
  cfg_size :: "string option"
  cfg_pressReady :: "bool option"
  cfg_timeout :: "int option"

record BuildCliFlags =
  cli_configPath :: "string option"
  cli_input :: "string option"
  cli_outFile :: "string option"
  cli_rootDir :: "string option"
  cli_theme :: "string option"
  cli_size :: "size_val option"
  cli_title :: "string option"
  cli_language :: "string option"
  cli_author :: "string option"
  cli_pressReady :: bool
  cli_verbose :: "bool option"
  cli_timeout :: int
  cli_loadMode :: "string option"
  cli_sandbox :: bool
  cli_executableChromium :: "string option"

record ManifestOption =
  mo_title :: "string option"
  mo_author :: "string option"
  mo_language :: "string option"
  mo_modified :: string
  mo_entries :: "Entry list"
  mo_toc :: "toc_val option"

text \<open>The nearest \<^verbatim>\<open>package.json\<close> (only \<^verbatim>\<open>name\<close> and \<^verbatim>\<open>author\<close> are read).\<close>

record PkgJson =
  pkg_name :: "string option"
  pkg_author :: "string option"

text \<open>The descriptor of a theme package, as \<^verbatim>\<open>parseTheme\<close> reads it.\<close>

record ThemePackageJson =
  tp_name :: "string option"
  tp_vivliostyle_theme_style :: "string option"
  tp_vivliostyle_theme_stylesheet :: "string option"
  tp_style :: "string option"
  tp_main :: "string option"

text \<open>
  The \<^verbatim>\<open>File\<close> that \<^verbatim>\<open>processMarkdown\<close> returns: \<^verbatim>\<open>data.title\<close>, \<^verbatim>\<open>data.theme\<close> (a value
  that is not a string is \<open>None\<close>) and the text \<^verbatim>\<open>String(file)\<close>. Of a parsed HTML
  document the module reads the text of the first \<^verbatim>\<open>title\<close> element and the \<^verbatim>\<open>href\<close> of
  the first stylesheet link.
\<close>

record VFile =
  vf_title :: "string option"
  vf_theme :: "string option"
  vf_contents :: string

record HtmlDocument =
  doc_title_text :: "string option"
  doc_stylesheet_href :: "string option"

section \<open>External collaborators\<close>

text \<open>
  Everything the module reads from its environment is a field of \<open>world\<close>: the
  functions of Node's \<^verbatim>\<open>path\<close> module, the working directory, the file system reads,
  package resolution, the Markdown processor and the HTML parser. A call that can throw
  returns \<open>error + 'a\<close>. The reads are taken to be independent of what the build writes.
  \<^verbatim>\<open>path.resolve(x)\<close> with one argument is \<^verbatim>\<open>path.resolve(cwd, x)\<close>.
\<close>

record world =
  cwd :: string
  path_resolve :: "string \<Rightarrow> string \<Rightarrow> string"
  path_join :: "string \<Rightarrow> string \<Rightarrow> string"
  path_dirname :: "string \<Rightarrow> string"
  path_basename :: "string \<Rightarrow> string"
  path_basename_ext :: "string \<Rightarrow> string \<Rightarrow> string"
  path_relative :: "string \<Rightarrow> string \<Rightarrow> string"
  pkgUp :: "string option"
  require_pkg :: "string \<Rightarrow> error + PkgJson"
  existsSync :: "string \<Rightarrow> bool"
  require_config :: "string \<Rightarrow> error + VivliostyleConfig"
  resolvePkg :: "string \<Rightarrow> string option"
  readPackageJson :: "string \<Rightarrow> error + ThemePackageJson"
  processMarkdown :: "string \<Rightarrow> string option \<Rightarrow> error + VFile"
  jsdom :: "string \<Rightarrow> error + HtmlDocument"
  now_iso :: string

definition ctxPath :: "world \<Rightarrow> string \<Rightarrow> string option \<Rightarrow> string option" where
  "ctxPath w context loc =
     (case loc of
        None \<Rightarrow> None
      | Some l \<Rightarrow> if l = [] then Some l else Some (path_resolve w context l))"

definition collectVivliostyleConfig :: "world \<Rightarrow> string \<Rightarrow> error + VivliostyleConfig option" where
  "collectVivliostyleConfig w configPath =
     (if \<not> existsSync w configPath then Inr None
      else (case require_config w configPath of
              Inl e \<Rightarrow> Inl e
            | Inr c \<Rightarrow> Inr (Some c)))"

section \<open>Theme resolution\<close>

definition startsWith :: "string \<Rightarrow> string \<Rightarrow> bool" where
  "startsWith s p = (take (length p) s = p)"

text \<open>The test \<^verbatim>\<open>/^https?:\/\//\<close>.\<close>

definition is_http_url :: "string \<Rightarrow> bool" where
  "is_http_url s = (startsWith s ''http://'' \<or> startsWith s ''https://'')"

text \<open>\<^verbatim>\<open>name.replace(/\//g, '-')\<close>.\<close>

definition replace_slashes :: "string \<Rightarrow> string" where
  "replace_slashes s = map (\<lambda>c. if c = CHR ''/'' then CHR ''-'' else c) s"

text \<open>
  \<^verbatim>\<open>parseTheme\<close>. The argument is \<^verbatim>\<open>unknown\<close>: \<open>None\<close> stands for every value that is
  not a string. Reading \<^verbatim>\<open>name.replace\<close> of a descriptor without a name is a
  \<^verbatim>\<open>TypeError\<close>.
\<close>

definition parseTheme :: "world \<Rightarrow> string option \<Rightarrow> error + ParsedTheme option" where
  "parseTheme w themeString =
     (case themeString of
        None \<Rightarrow> Inr None
      | Some s \<Rightarrow>
          if is_http_url s
          then Inr (Some \<lparr>t_type = Uri, t_name = path_basename w s, t_location = s\<rparr>)
          else (case resolvePkg w s of
                  None \<Rightarrow> Inl (Error (''package not found: '' @ s))
                | Some pkgRoot \<Rightarrow>
                    if endsWith pkgRoot ''.css''
                    then Inr (Some \<lparr>t_type = Path, t_name = path_basename w pkgRoot,
                                    t_location = pkgRoot\<rparr>)
                    else (case readPackageJson w (path_join w pkgRoot ''package.json'') of
                            Inl e \<Rightarrow> Inl e
                          | Inr packageJson \<Rightarrow>
                              let maybeCSS =
                                    or_else (tp_vivliostyle_theme_style packageJson)
                                      (or_else (tp_vivliostyle_theme_stylesheet packageJson)
                                         (or_else (tp_style packageJson) (tp_main packageJson)))
                              in if \<not> truthy maybeCSS \<or> \<not> endsWith (the maybeCSS) ''.css''
                                 then Inl (Error (''invalid css file: '' @
                                        (case maybeCSS of None \<Rightarrow> ''undefined'' | Some c \<Rightarrow> c)))
                                 else (case tp_name packageJson of
                                         None \<Rightarrow> Inl (Error ''TypeError'')
                                       | Some n \<Rightarrow>
                                           Inr (Some \<lparr>t_type = Path,
                                                  t_name = replace_slashes n @ ''.css'',
                                                  t_location = path_resolve w pkgRoot (the maybeCSS)\<rparr>)))))"

section \<open>Effects\<close>

text \<open>
  What the build does to the file system, the browser and the terminal is a list of
  events, in the order of the calls. An event records a call that did not throw, not
  what the call achieved: the model does not track which files and directories exist.
  Debug output and the page's logging handlers are left out. A manifest is written as a JSON value and
  the generated table of contents as its list of links (href and label); the
  serialisers are external.
\<close>

datatype json = JString string | JArray "json list" | JObject "(string \<times> json) list"

datatype content = Text string | Json json | TocDocument "(string \<times> string) list"

datatype event =
    Rm string
  | MkdirP string
  | Cp string string
  | WriteFile string content
  | Log string
  | ServersLaunched string
  | BrowserLaunched string "string list"
  | BrowserVersion
  | NewPage
  | Goto string
  | ViewerFound
  | ViewerGetMetadata
  | ViewerAddListener string
  | ViewerRemoveListener string
  | ViewerShowTOC bool
  | ViewerGetTOC
  | EmulateMediaType string
  | PdfCaptured
  | BrowserClosed
  | PostLoad string
  | PostMetadata string
  | PostToc string
  | PostSave string bool
  | ProcessExit int

text \<open>
  An awaited call returns, throws, or never settles. \<open>bind_io\<close> is the sequencing of
  \<^verbatim>\<open>await\<close>: the continuation runs only after a return.
\<close>

datatype 'a outcome = Returned 'a | Thrown error | Pending

type_synonym 'a io = "event list \<times> 'a outcome"

definition bind_io :: "'a io \<Rightarrow> ('a \<Rightarrow> 'b io) \<Rightarrow> 'b io" where
  "bind_io m f =
     (case m of
        (evs, Returned x) \<Rightarrow> (case f x of (evs', r) \<Rightarrow> (evs @ evs', r))
      | (evs, Thrown e) \<Rightarrow> (evs, Thrown e)
      | (evs, Pending) \<Rightarrow> (evs, Pending))"

definition return_io :: "'a \<Rightarrow> 'a io" where
  "return_io x = ([], Returned x)"

definition emit :: "event \<Rightarrow> unit io" where
  "emit ev = ([ev], Returned ())"

definition lift :: "error + 'a \<Rightarrow> 'a io" where
  "lift r = (case r of Inl e \<Rightarrow> ([], Thrown e) | Inr x \<Rightarrow> ([], Returned x))"

section \<open>Manifest and table of contents\<close>

record ReadingItem =
  ri_href :: string
  ri_type :: string
  ri_title :: "string option"

record Resource =
  rs_href :: string
  rs_rel :: string
  rs_type :: string
  rs_title :: string

record Metadata =
  md_type :: string
  md_title :: "string option"
  md_author :: "string option"
  md_language :: "string option"
  md_modified :: string

record Manifest =
  mf_context :: string
  mf_metadata :: Metadata
  mf_links :: "json list"
  mf_readingOrder :: "ReadingItem list"
  mf_resources :: "Resource list"

text \<open>The test \<^verbatim>\<open>if (options.toc)\<close> on \<^verbatim>\<open>toc?: boolean | string\<close>.\<close>

definition toc_requested :: "toc_val option \<Rightarrow> bool" where
  "toc_requested toc = (case toc of None \<Rightarrow> False | Some t \<Rightarrow> toc_truthy t)"

text \<open>The object literal \<^verbatim>\<open>manifest\<close> of \<^verbatim>\<open>generateManifest\<close>.\<close>

definition manifest_of :: "ManifestOption \<Rightarrow> Manifest" where
  "manifest_of options =
     (let resources =
            (if toc_requested (mo_toc options)
             then [\<lparr>rs_href = ''toc.html'', rs_rel = ''contents'', rs_type = ''text/html'',
                    rs_title = ''Table of Contents''\<rparr>]
             else [])
      in \<lparr>mf_context = ''https://readium.org/webpub-manifest/context.jsonld'',
          mf_metadata = \<lparr>md_type = ''http://schema.org/Book'',
                          md_title = mo_title options,
                          md_author = mo_author options,
                          md_language = mo_language options,
                          md_modified = mo_modified options\<rparr>,
          mf_links = [],
          mf_readingOrder =
            map (\<lambda>entry. \<lparr>ri_href = e_path entry, ri_type = ''text/html'',
                            ri_title = e_title entry\<rparr>) (mo_entries options),
          mf_resources = resources\<rparr>)"

text \<open>
  \<^verbatim>\<open>JSON.stringify\<close> keeps every property of an object but those whose value is
  \<^verbatim>\<open>undefined\<close>.
\<close>

definition opt_prop :: "string \<Rightarrow> string option \<Rightarrow> (string \<times> json) list" where
  "opt_prop k v = (case v of None \<Rightarrow> [] | Some s \<Rightarrow> [(k, JString s)])"

definition reading_item_json :: "ReadingItem \<Rightarrow> json" where
  "reading_item_json i =
     JObject ([(''href'', JString (ri_href i)), (''type'', JString (ri_type i))]
              @ opt_prop ''title'' (ri_title i))"

definition resource_json :: "Resource \<Rightarrow> json" where
  "resource_json r =
     JObject [(''href'', JString (rs_href r)), (''rel'', JString (rs_rel r)),
              (''type'', JString (rs_type r)), (''title'', JString (rs_title r))]"

definition manifest_json :: "Manifest \<Rightarrow> json" where
  "manifest_json m =
     JObject
       [(''@context'', JString (mf_context m)),
        (''metadata'',
           JObject ([(''@type'', JString (md_type (mf_metadata m)))]
                    @ opt_prop ''title'' (md_title (mf_metadata m))
                    @ opt_prop ''author'' (md_author (mf_metadata m))
                    @ opt_prop ''language'' (md_language (mf_metadata m))
                    @ [(''modified'', JString (md_modified (mf_metadata m)))])),
        (''links'', JArray (mf_links m)),
        (''readingOrder'', JArray (map reading_item_json (mf_readingOrder m))),
        (''resources'', JArray (map resource_json (mf_resources m)))]"

definition generateManifest :: "string \<Rightarrow> ManifestOption \<Rightarrow> unit io" where
  "generateManifest outputPath options =
     emit (WriteFile outputPath (Json (manifest_json (manifest_of options))))"

text \<open>The value of a property of a JSON object (\<open>None\<close>: no such property).\<close>

fun json_prop :: "string \<Rightarrow> json \<Rightarrow> json option" where
  "json_prop k (JObject kvs) = map_of kvs k"
| "json_prop k (JString s) = None"
| "json_prop k (JArray xs) = None"

definition generateToC :: "world \<Rightarrow> ParsedEntry list \<Rightarrow> string \<Rightarrow> content" where
  "generateToC w entries distDir =
     TocDocument
       (map (\<lambda>entry.
               (path_relative w distDir (pe_target_path entry),
                (if truthy (pe_title entry) then the (pe_title entry)
                 else path_basename_ext w (pe_target_path entry) ''.html'')))
          entries)"

section \<open>The rendering session\<close>

text \<open>
  The servers, the browser, the viewer inside the page and the PDF post-processor are
  external. \<open>fails\<close> tells which of their calls throws, and with what; the other
  fields are what they answer. \<open>done_events\<close> is the sequence of payloads the viewer
  emits as \<^verbatim>\<open>done\<close> events once the table of contents is shown, and \<open>ready_at\<close> is the
  number of the first poll (polls are one second apart, the first at once) that finds
  \<^verbatim>\<open>readyState === 'complete'\<close>, \<open>None\<close> if no poll ever does.
\<close>

datatype step =
    StatFile | FindEntryPointFile | LaunchServers | LaunchBrowser | GetVersion
  | OpenPage | PageGoto | WaitForViewer | LoadMetadata | EmulateMedia | PagePdf
  | BrowserClose | PostProcessLoad | PostProcessMetadata | PostProcessToc
  | PostProcessSave

record Payload =
  payload_a :: string

record render_env =
  fails :: "step \<Rightarrow> error option"
  stat_isDirectory :: "string \<Rightarrow> bool"
  findEntryPointFile :: "string \<Rightarrow> string \<Rightarrow> string"
  output_isDirectory :: "string \<Rightarrow> bool"
  source_port :: nat
  broker_port :: nat
  getBrokerUrl :: "nat \<Rightarrow> string \<Rightarrow> nat \<Rightarrow> string \<Rightarrow> PageSize option \<Rightarrow> string"
  puppeteer_executablePath :: string
  viewer_metadata :: string
  viewer_toc :: string
  done_events :: "Payload list"
  ready_at :: "nat option"
  pdf_bytes :: string

definition call :: "render_env \<Rightarrow> step \<Rightarrow> event list \<Rightarrow> unit io" where
  "call r s evs = (case fails r s of Some e \<Rightarrow> ([], Thrown e) | None \<Rightarrow> (evs, Returned ()))"

text \<open>
  \<^verbatim>\<open>page.waitForFunction(..., {polling: 1000, timeout})\<close>: poll \<open>k\<close> runs at
  \<open>1000 * k\<close> milliseconds if the timeout has not passed by then; a timeout of 0 switches
  the timeout off.
\<close>

definition waitForFunction :: "render_env \<Rightarrow> int \<Rightarrow> unit io" where
  "waitForFunction r timeout =
     (case ready_at r of
        Some k \<Rightarrow>
          if timeout = 0 \<or> 1000 * int k < timeout then ([], Returned ())
          else ([], Thrown TimeoutError)
      | None \<Rightarrow> if timeout = 0 then ([], Pending) else ([], Thrown TimeoutError))"

definition loadMetadata :: "render_env \<Rightarrow> string io" where
  "loadMetadata r =
     bind_io (call r LoadMetadata [ViewerGetMetadata]) (\<lambda>_. return_io (viewer_metadata r))"

text \<open>
  \<^verbatim>\<open>loadTOC\<close>. The listener returns the calls it makes on the viewer and, when it
  resolves the promise, the value. It unregisters itself exactly when it resolves, so
  \<open>deliver\<close> hands it the \<^verbatim>\<open>done\<close> events in turn until then; a promise that is never
  resolved stays pending.
\<close>

definition listener :: "render_env \<Rightarrow> Payload \<Rightarrow> event list \<times> string option" where
  "listener r payload =
     (if payload_a payload \<noteq> ''toc'' then ([], None)
      else ([ViewerRemoveListener ''done'', ViewerShowTOC False, ViewerGetTOC],
            Some (viewer_toc r)))"

fun deliver :: "render_env \<Rightarrow> Payload list \<Rightarrow> string io" where
  "deliver r [] = ([], Pending)"
| "deliver r (p # ps) =
     (case listener r p of
        (evs, Some v) \<Rightarrow> (evs, Returned v)
      | (evs, None) \<Rightarrow> (case deliver r ps of (evs', res) \<Rightarrow> (evs @ evs', res)))"

definition loadTOC :: "render_env \<Rightarrow> string io" where
  "loadTOC r =
     (case deliver r (done_events r) of
        (evs, res) \<Rightarrow> ([ViewerAddListener ''done'', ViewerShowTOC True] @ evs, res))"

record GeneratePDFArgs =
  g_input :: string
  g_rootDir :: "string option"
  g_outputPath :: string
  g_size :: "size_val option"
  g_loadMode :: string
  g_executableChromium :: "string option"
  g_sandbox :: bool
  g_verbose :: bool
  g_timeout :: int
  g_pressReady :: bool

definition or_default :: "string option \<Rightarrow> string \<Rightarrow> string" where
  "or_default a d = (if truthy a then the a else d)"

text \<open>\<^verbatim>\<open>size ? parsePageSize(size) : undefined\<close>.\<close>

definition outputSize_of :: "size_val option \<Rightarrow> error + PageSize option" where
  "outputSize_of sz =
     (case sz of
        None \<Rightarrow> Inr None
      | Some v \<Rightarrow>
          if size_truthy v
          then (case parsePageSize v of Inl e \<Rightarrow> Inl e | Inr ps \<Rightarrow> Inr (Some ps))
          else Inr None)"

definition generatePDF :: "world \<Rightarrow> render_env \<Rightarrow> GeneratePDFArgs \<Rightarrow> string io" where
  "generatePDF w r args =
     bind_io (call r StatFile []) (\<lambda>_.
     let root = or_default (g_rootDir args)
                  (if stat_isDirectory r (g_input args) then g_input args
                   else path_dirname w (g_input args))
     in
     bind_io (call r FindEntryPointFile []) (\<lambda>_.
     let sourceIndex = findEntryPointFile r (g_input args) root;
         outputFile = (if output_isDirectory r (g_outputPath args)
                       then path_resolve w (g_outputPath args) ''output.pdf''
                       else g_outputPath args)
     in
     bind_io (lift (outputSize_of (g_size args))) (\<lambda>outputSize.
     bind_io (call r LaunchServers [ServersLaunched root]) (\<lambda>_.
     let navigateURL = getBrokerUrl r (source_port r) sourceIndex (broker_port r)
                         (g_loadMode args) outputSize
     in
     bind_io (emit (Log ''Launching build environment...'')) (\<lambda>_.
     bind_io (call r LaunchBrowser
                [BrowserLaunched
                   (or_default (g_executableChromium args) (puppeteer_executablePath r))
                   [if g_sandbox args then [] else ''--no-sandbox'']]) (\<lambda>_.
     bind_io (call r GetVersion [BrowserVersion]) (\<lambda>_.
     bind_io (call r OpenPage [NewPage]) (\<lambda>_.
     bind_io (emit (Log ''Building pages...'')) (\<lambda>_.
     bind_io (call r PageGoto [Goto navigateURL]) (\<lambda>_.
     bind_io (call r WaitForViewer [ViewerFound]) (\<lambda>_.
     bind_io (loadMetadata r) (\<lambda>metadata.
     bind_io (loadTOC r) (\<lambda>toc.
     bind_io (call r EmulateMedia [EmulateMediaType ''print'']) (\<lambda>_.
     bind_io (waitForFunction r (g_timeout args)) (\<lambda>_.
     bind_io (emit (Log ''Generating PDF...'')) (\<lambda>_.
     bind_io (call r PagePdf [PdfCaptured]) (\<lambda>_.
     bind_io (emit (Log ''Processing PDF...'')) (\<lambda>_.
     bind_io (call r BrowserClose [BrowserClosed]) (\<lambda>_.
     bind_io (call r PostProcessLoad [PostLoad (pdf_bytes r)]) (\<lambda>_.
     bind_io (call r PostProcessMetadata [PostMetadata metadata]) (\<lambda>_.
     bind_io (call r PostProcessToc [PostToc toc]) (\<lambda>_.
     bind_io (call r PostProcessSave [PostSave outputFile (g_pressReady args)]) (\<lambda>_.
     return_io outputFile)))))))))))))))))))))))"

section \<open>The build\<close>

text \<open>
  \<^verbatim>\<open>build\<close> is one function; the model cuts it where its comments do. \<open>Locals\<close> holds
  the constants it computes up to and including \<^verbatim>\<open>// merge config\<close>. \<^verbatim>\<open>config?.x\<close> is
  \<open>Option.bind config x\<close>.
\<close>

record Locals =
  l_pkgJson :: "PkgJson option"
  l_configPath :: string
  l_config :: "VivliostyleConfig option"
  l_configBaseDir :: string
  l_distDir :: string
  l_artifactDir :: string
  l_title :: "string option"
  l_author :: "string option"
  l_language :: string
  l_outFile :: string
  l_size :: "size_val option"
  l_contextDir :: string
  l_toc :: toc_val
  l_pressReady :: bool
  l_verbose :: bool
  l_timeout :: int
  l_sandbox :: bool
  l_loadMode :: string
  l_executableChromium :: "string option"

definition configPath_of :: "world \<Rightarrow> BuildCliFlags \<Rightarrow> string" where
  "configPath_of w cliFlags =
     (if truthy (cli_configPath cliFlags)
      then path_resolve w (cwd w) (the (cli_configPath cliFlags))
      else path_join w (cwd w) ''vivliostyle.config.js'')"

definition mergeConfig ::
  "world \<Rightarrow> BuildCliFlags \<Rightarrow> PkgJson option \<Rightarrow> string \<Rightarrow> VivliostyleConfig option \<Rightarrow> Locals"
where
  "mergeConfig w cliFlags pkgJson configPath config =
     (let configBaseDir = (if config \<noteq> None then path_dirname w configPath else cwd w);
          distDir = path_resolve w (cwd w)
                      (or_default (ctxPath w configBaseDir (Option.bind config cfg_outDir))
                         ''.vivliostyle'');
          artifactDir = path_join w distDir ''artifacts''
      in \<lparr>l_pkgJson = pkgJson,
          l_configPath = configPath,
          l_config = config,
          l_configBaseDir = configBaseDir,
          l_distDir = distDir,
          l_artifactDir = artifactDir,
          l_title = or_else (or_else (cli_title cliFlags) (Option.bind config cfg_title))
                      (Option.bind pkgJson pkg_name),
          l_author = or_else (or_else (cli_author cliFlags) (Option.bind config cfg_author))
                       (Option.bind pkgJson pkg_author),
          l_language = or_default (Option.bind config cfg_language) ''en'',
          l_outFile = path_resolve w (cwd w)
                        (or_default
                           (or_else (cli_outFile cliFlags)
                              (ctxPath w configBaseDir (Option.bind config cfg_outFile)))
                           ''./output.pdf''),
          l_size = (if (case cli_size cliFlags of None \<Rightarrow> False | Some sz \<Rightarrow> size_truthy sz)
                    then cli_size cliFlags
                    else map_option SizeStr (Option.bind config cfg_size)),
          l_contextDir = path_resolve w (cwd w)
                           (or_default
                              (or_else (cli_rootDir cliFlags)
                                 (ctxPath w configBaseDir (Option.bind config cfg_entryContext)))
                              ''.''),
          l_toc = (case Option.bind config cfg_toc of
                     None \<Rightarrow> TocBool True
                   | Some t \<Rightarrow> if toc_truthy t then t else TocBool True),
          l_pressReady = (if cli_pressReady cliFlags then True
                          else if Option.bind config cfg_pressReady = Some True then True
                          else False),
          l_verbose = (if cli_verbose cliFlags = Some True then True else False),
          l_timeout = (if cli_timeout cliFlags \<noteq> 0 then cli_timeout cliFlags
                       else (case Option.bind config cfg_timeout of
                               None \<Rightarrow> 3000
                             | Some t \<Rightarrow> if t \<noteq> 0 then t else 3000)),
          l_sandbox = (if cli_sandbox cliFlags then cli_sandbox cliFlags else True),
          l_loadMode = or_default (cli_loadMode cliFlags) ''book'',
          l_executableChromium = cli_executableChromium cliFlags\<rparr>)"

text \<open>\<^verbatim>\<open>pkgJsonPath ? require(pkgJsonPath) : undefined\<close>.\<close>

definition loadPkgJson :: "world \<Rightarrow> error + PkgJson option" where
  "loadPkgJson w =
     (case pkgUp w of
        None \<Rightarrow> Inr None
      | Some pkgJsonPath \<Rightarrow>
          (case require_pkg w pkgJsonPath of Inl e \<Rightarrow> Inl e | Inr j \<Rightarrow> Inr (Some j)))"

text \<open>The start of \<^verbatim>\<open>build\<close>: the package descriptor, the config file, the merge.\<close>

definition resolveConfig :: "world \<Rightarrow> BuildCliFlags \<Rightarrow> error + Locals" where
  "resolveConfig w cliFlags =
     (case loadPkgJson w of
        Inl e \<Rightarrow> Inl e
      | Inr pkgJson \<Rightarrow>
          let configPath = configPath_of w cliFlags
          in (case collectVivliostyleConfig w configPath of
                Inl e \<Rightarrow> Inl e
              | Inr config \<Rightarrow> Inr (mergeConfig w cliFlags pkgJson configPath config)))"

text \<open>\<^verbatim>\<open>// setup themes\<close>: the list \<^verbatim>\<open>themes\<close> starts with the root theme, if there is one.\<close>

definition setupThemes :: "world \<Rightarrow> BuildCliFlags \<Rightarrow> Locals \<Rightarrow> error + ParsedTheme list" where
  "setupThemes w cliFlags l =
     (let theme = or_else (cli_theme cliFlags) (Option.bind (l_config l) cfg_theme)
      in (case (if truthy theme then parseTheme w theme else Inr None) of
            Inl e \<Rightarrow> Inl e
          | Inr rootTheme \<Rightarrow> Inr (case rootTheme of None \<Rightarrow> [] | Some t \<Rightarrow> [t])))"

fun normalizeEnry :: "raw_entry \<Rightarrow> Entry" where
  "normalizeEnry (EObj e) = e"
| "normalizeEnry (EStr s) = \<lparr>e_path = s, e_title = None, e_theme = None\<rparr>"

definition parseMetadata ::
  "world \<Rightarrow> doc_type \<Rightarrow> string \<Rightarrow> error + (string option \<times> ParsedTheme option)"
where
  "parseMetadata w type sourcePath =
     (if type = Markdown
      then (case processMarkdown w sourcePath None of
              Inl e \<Rightarrow> Inl e
            | Inr file \<Rightarrow>
                (case parseTheme w (vf_theme file) of
                   Inl e \<Rightarrow> Inl e
                 | Inr theme \<Rightarrow> Inr (vf_title file, theme)))
      else (case jsdom w sourcePath of
              Inl e \<Rightarrow> Inl e
            | Inr document \<Rightarrow>
                (case parseTheme w (doc_stylesheet_href document) of
                   Inl e \<Rightarrow> Inl e
                 | Inr theme \<Rightarrow> Inr (or_else (doc_title_text document) None, theme))))"

text \<open>\<^verbatim>\<open>.replace(/\.md$/, '.html')\<close>.\<close>

definition replace_md :: "string \<Rightarrow> string" where
  "replace_md p = (if endsWith p ''.md'' then take (length p - 3) p @ ''.html'' else p)"

text \<open>
  \<^verbatim>\<open>parseEntry\<close> reads and extends the list \<^verbatim>\<open>themes\<close> of the enclosing \<^verbatim>\<open>build\<close>: the
  model takes the list and returns the new one.
\<close>

definition parseEntry ::
  "world \<Rightarrow> Locals \<Rightarrow> ParsedTheme list \<Rightarrow> Entry \<Rightarrow> error + (ParsedEntry \<times> ParsedTheme list)"
where
  "parseEntry w l themes entry =
     (let sourcePath = path_resolve w (l_contextDir l) (e_path entry);
          sourceDir = path_dirname w sourcePath;
          contextEntryPath = path_relative w (l_contextDir l) sourcePath;
          targetPath = replace_md (path_resolve w (l_artifactDir l) contextEntryPath);
          targetDir = path_dirname w targetPath;
          type = (if endsWith sourcePath ''.html'' then Html else Markdown)
      in (case parseMetadata w type sourcePath of
            Inl e \<Rightarrow> Inl e
          | Inr (title, theme) \<Rightarrow>
              (case parseTheme w (e_theme entry) of
                 Inl e \<Rightarrow> Inl e
               | Inr entryTheme \<Rightarrow>
                   let parsedTheme =
                         (case entryTheme of
                            Some t \<Rightarrow> Some t
                          | None \<Rightarrow> (case theme of Some t \<Rightarrow> Some t | None \<Rightarrow> nth_opt themes 0));
                       themes' =
                         (case parsedTheme of
                            None \<Rightarrow> themes
                          | Some pt \<Rightarrow>
                              if list_all (\<lambda>t. t_name t \<noteq> t_name pt) themes
                              then themes @ [pt] else themes)
                   in Inr (\<lparr>pe_type = type,
                            pe_title = or_else (or_else (e_title entry) title)
                                         (Option.bind (l_config l) cfg_title),
                            pe_theme = parsedTheme,
                            pe_source_path = sourcePath,
                            pe_source_dir = sourceDir,
                            pe_target_path = targetPath,
                            pe_target_dir = targetDir\<rparr>, themes'))))"

text \<open>\<^verbatim>\<open>rawEntries.map(normalizeEnry).map(parseEntry)\<close>: left to right, up to the first throw.\<close>

fun parseEntries ::
  "world \<Rightarrow> Locals \<Rightarrow> ParsedTheme list \<Rightarrow> Entry list \<Rightarrow> error + (ParsedEntry list \<times> ParsedTheme list)"
where
  "parseEntries w l themes [] = Inr ([], themes)"
| "parseEntries w l themes (e # es) =
     (case parseEntry w l themes e of
        Inl err \<Rightarrow> Inl err
      | Inr (pe, themes') \<Rightarrow>
          (case parseEntries w l themes' es of
             Inl err \<Rightarrow> Inl err
           | Inr (pes, themes'') \<Rightarrow> Inr (pe # pes, themes'')))"

fun raw_truthy :: "raw_entry \<Rightarrow> bool" where
  "raw_truthy (EStr s) = (s \<noteq> [])"
| "raw_truthy (EObj e) = True"

definition rawEntries :: "BuildCliFlags \<Rightarrow> VivliostyleConfig option \<Rightarrow> raw_entry list" where
  "rawEntries cliFlags config =
     (if truthy (cli_input cliFlags) then [EStr (the (cli_input cliFlags))]
      else (case config of
              None \<Rightarrow> []
            | Some c \<Rightarrow>
                (case cfg_entry c of
                   None \<Rightarrow> []
                 | Some (Many es) \<Rightarrow> es
                 | Some (One e) \<Rightarrow> if raw_truthy e then [e] else [])))"

text \<open>
  Everything \<^verbatim>\<open>build\<close> computes before it touches the output directory: the locals, the
  parsed entries and the themes. No entry is an error.
\<close>

definition prepare ::
  "world \<Rightarrow> BuildCliFlags \<Rightarrow> error + (Locals \<times> ParsedEntry list \<times> ParsedTheme list)"
where
  "prepare w cliFlags =
     (case resolveConfig w cliFlags of
        Inl e \<Rightarrow> Inl e
      | Inr l \<Rightarrow>
          (case setupThemes w cliFlags l of
             Inl e \<Rightarrow> Inl e
           | Inr themes0 \<Rightarrow>
               (case parseEntries w l themes0
                       (map normalizeEnry (rawEntries cliFlags (l_config l))) of
                  Inl e \<Rightarrow> Inl e
                | Inr (entries, themes) \<Rightarrow>
                    if length entries = 0 then Inl (Error ''no entry found'')
                    else Inr (l, entries, themes))))"

text \<open>
  \<^verbatim>\<open>// populate entries\<close>, the body of the loop. The stylesheet handed to the Markdown
  processor is the staged copy of a local theme, relative to the directory of the target,
  or the location of a remote one.
\<close>

definition populateEntry :: "world \<Rightarrow> string \<Rightarrow> ParsedEntry \<Rightarrow> unit io" where
  "populateEntry w distDir entry =
     (if pe_type entry = Html
      then emit (Cp (pe_source_path entry) (pe_target_path entry))
      else
        let stylesheet =
              (case pe_theme entry of
                 None \<Rightarrow> None
               | Some t \<Rightarrow>
                   if t_type t = Path
                   then Some (path_relative w (pe_target_dir entry)
                                (path_join w distDir (t_name t)))
                   else Some (t_location t))
        in (case processMarkdown w (pe_source_path entry) stylesheet of
              Inl e \<Rightarrow> ([], Thrown e)
            | Inr file \<Rightarrow>
                ([MkdirP (pe_target_dir entry),
                  WriteFile (pe_target_path entry) (Text (vf_contents file))],
                 Returned ())))"

fun populateEntries :: "world \<Rightarrow> string \<Rightarrow> ParsedEntry list \<Rightarrow> unit io" where
  "populateEntries w distDir [] = return_io ()"
| "populateEntries w distDir (e # es) =
     bind_io (populateEntry w distDir e) (\<lambda>_. populateEntries w distDir es)"

text \<open>\<^verbatim>\<open>// copy theme\<close>.\<close>

definition copyThemes :: "world \<Rightarrow> string \<Rightarrow> ParsedTheme list \<Rightarrow> event list" where
  "copyThemes w distDir themes =
     map (\<lambda>t. Cp (t_location t) (path_join w distDir (t_name t)))
       (filter (\<lambda>t. t_type t = Path) themes)"

definition manifestOptions :: "world \<Rightarrow> Locals \<Rightarrow> ParsedEntry list \<Rightarrow> ManifestOption" where
  "manifestOptions w l entries =
     \<lparr>mo_title = l_title l,
      mo_author = l_author l,
      mo_language = Some (l_language l),
      mo_modified = now_iso w,
      mo_entries =
        map (\<lambda>entry. \<lparr>e_path = path_relative w (l_distDir l) (pe_target_path entry),
                       e_title = pe_title entry, e_theme = None\<rparr>) entries,
      mo_toc = Some (l_toc l)\<rparr>"

text \<open>\<^verbatim>\<open>// generate toc\<close>.\<close>

definition stageToc :: "world \<Rightarrow> Locals \<Rightarrow> ParsedEntry list \<Rightarrow> event list" where
  "stageToc w l entries =
     (if toc_truthy (l_toc l)
      then (let distTocPath = path_join w (l_distDir l) ''toc.html''
            in (case l_toc l of
                  TocStr toc \<Rightarrow> [Cp (path_resolve w (l_contextDir l) toc) distTocPath]
                | TocBool b \<Rightarrow> [WriteFile distTocPath (generateToC w entries (l_distDir l))]))
      else [])"

text \<open>From \<^verbatim>\<open>// cleanup dist\<close> to \<^verbatim>\<open>// generate toc\<close>.\<close>

definition stage :: "world \<Rightarrow> Locals \<Rightarrow> ParsedEntry list \<Rightarrow> ParsedTheme list \<Rightarrow> unit io" where
  "stage w l entries themes =
     bind_io ([Rm (l_distDir l), MkdirP (l_artifactDir l)], Returned ()) (\<lambda>_.
     bind_io (populateEntries w (l_distDir l) entries) (\<lambda>_.
     bind_io (copyThemes w (l_distDir l) themes, Returned ()) (\<lambda>_.
     bind_io (generateManifest (path_join w (l_distDir l) ''manifest.json'')
                (manifestOptions w l entries)) (\<lambda>_.
     (stageToc w l entries, Returned ())))))"

text \<open>
  The argument of the call of \<^verbatim>\<open>generatePDF\<close> at the end of \<^verbatim>\<open>build\<close>. The last log
  messages are written without the emoji of the source.
\<close>

definition pdfArgs :: "world \<Rightarrow> Locals \<Rightarrow> GeneratePDFArgs" where
  "pdfArgs w l =
     \<lparr>g_input = path_join w (l_distDir l) ''manifest.json'',
      g_rootDir = Some (l_distDir l),
      g_outputPath = l_outFile l,
      g_size = l_size l,
      g_loadMode = l_loadMode l,
      g_executableChromium = l_executableChromium l,
      g_sandbox = l_sandbox l,
      g_verbose = l_verbose l,
      g_timeout = l_timeout l,
      g_pressReady = l_pressReady l\<rparr>"

definition build :: "world \<Rightarrow> render_env \<Rightarrow> BuildCliFlags \<Rightarrow> unit io" where
  "build w r cliFlags =
     bind_io (lift (prepare w cliFlags)) (\<lambda>(l, entries, themes).
     bind_io (stage w l entries themes) (\<lambda>_.
     bind_io (generatePDF w r (pdfArgs w l)) (\<lambda>outputFile.
     ([Log ''Done'', Log (outputFile @ '' has been created''), ProcessExit 0],
      Returned ()))))"

section \<open>Observations on a run\<close>

text \<open>
  What the properties below read off the events of a run: whether a PDF was saved,
  whether the browser is open at the end, and whether the table of contents is shown in
  the page (at the end of the events, or at a capture).
\<close>

fun is_save :: "event \<Rightarrow> bool" where
  "is_save (PostSave p b) = True"
| "is_save _ = False"

fun is_fs_event :: "event \<Rightarrow> bool" where
  "is_fs_event (Rm p) = True"
| "is_fs_event (MkdirP p) = True"
| "is_fs_event (Cp p q) = True"
| "is_fs_event (WriteFile p c) = True"
| "is_fs_event _ = False"

fun browser_open :: "bool \<Rightarrow> event list \<Rightarrow> bool" where
  "browser_open b [] = b"
| "browser_open b (BrowserLaunched exe as # evs) = browser_open True evs"
| "browser_open b (BrowserClosed # evs) = browser_open False evs"
| "browser_open b (_ # evs) = browser_open b evs"




definition is_toc :: "Payload \<Rightarrow> bool" where
  "is_toc p = (payload_a p = ''toc'')"

text \<open>
  Pagination never completes within the timeout: the timeout is on, and no poll that
  runs before it finds the viewer ready.
\<close>

definition no_poll_ready :: "render_env \<Rightarrow> int \<Rightarrow> bool" where
  "no_poll_ready r timeout =
     (case ready_at r of None \<Rightarrow> True | Some k \<Rightarrow> timeout \<le> 1000 * int k)"

definition never_ready :: "render_env \<Rightarrow> int \<Rightarrow> bool" where
  "never_ready r timeout = (timeout \<noteq> 0 \<and> no_poll_ready r timeout)"

text \<open>
  Every step of the session before the wait for pagination succeeds: no call throws, the
  page size parses and the viewer announces the table of contents.
\<close>

definition session_ok :: "render_env \<Rightarrow> GeneratePDFArgs \<Rightarrow> bool" where
  "session_ok r args =
     (list_all (\<lambda>s. fails r s = None)
        [StatFile, FindEntryPointFile, LaunchServers, LaunchBrowser, GetVersion, OpenPage,
         PageGoto, WaitForViewer, LoadMetadata, EmulateMedia] \<and>
      \<not> isl (outputSize_of (g_size args)) \<and>
      list_ex is_toc (done_events r))"

text \<open>
  The precedence as the specification words it: the command line flag, then the value
  of the config file, then the package metadata, then the built-in default, each taken
  when it is supplied.
\<close>

definition spec_precedence :: "'a option \<Rightarrow> 'a option \<Rightarrow> 'a option \<Rightarrow> 'a option \<Rightarrow> 'a option" where
  "spec_precedence cli cfg pkg dflt =
     (case cli of
        Some v \<Rightarrow> Some v
      | None \<Rightarrow>
          (case cfg of
             Some v \<Rightarrow> Some v
           | None \<Rightarrow> (case pkg of Some v \<Rightarrow> Some v | None \<Rightarrow> dflt)))"

text \<open>What the \<^verbatim>\<open>||\<close> chains of the merge take for supplied: a truthy value.\<close>

definition supplied :: "string option \<Rightarrow> string option" where
  "supplied v = (if truthy v then v else None)"

definition supplied_size :: "size_val option \<Rightarrow> size_val option" where
  "supplied_size v = (case v of None \<Rightarrow> None | Some sz \<Rightarrow> if size_truthy sz then Some sz else None)"

definition supplied_number :: "int option \<Rightarrow> int option" where
  "supplied_number v = (case v of None \<Rightarrow> None | Some n \<Rightarrow> if n \<noteq> 0 then Some n else None)"

definition supplied_flag :: "bool option \<Rightarrow> bool option" where
  "supplied_flag v = (if v = Some True then Some True else None)"

text \<open>
  The resolved themes of a list of parsed entries, in order, and the target path that
  \<^verbatim>\<open>parseEntry\<close> computes from the path of an entry.
\<close>

definition resolved_themes :: "ParsedEntry list \<Rightarrow> ParsedTheme list" where
  "resolved_themes entries = concat (map (\<lambda>e. case pe_theme e of None \<Rightarrow> [] | Some t \<Rightarrow> [t]) entries)"

text \<open>
  First occurrence wins: the names of \<open>themes\<close> are distinct, each record of \<open>themes\<close>
  is the first record of its name in the sequence \<open>seq\<close> of resolved themes, and every
  name of \<open>seq\<close> is the name of a record of \<open>themes\<close>.
\<close>

definition first_wins :: "ParsedTheme list \<Rightarrow> ParsedTheme list \<Rightarrow> bool" where
  "first_wins themes seq =
     (distinct (map t_name themes) \<and>
      list_all (\<lambda>t. find (\<lambda>u. t_name u = t_name t) seq = Some t) themes \<and>
      list_all (\<lambda>u. t_name u \<in> set (map t_name themes)) seq)"

definition target_of :: "world \<Rightarrow> Locals \<Rightarrow> Entry \<Rightarrow> string" where
  "target_of w l entry =
     replace_md (path_resolve w (l_artifactDir l)
       (path_relative w (l_contextDir l) (path_resolve w (l_contextDir l) (e_path entry))))"

section \<open>An example project\<close>

text \<open>
  A directory \<^verbatim>\<open>/work\<close> with a \<^verbatim>\<open>package.json\<close>, a \<^verbatim>\<open>vivliostyle.config.js\<close> that lists
  three entries and asks for a press-ready PDF without table of contents, two Markdown
  files, each naming in its front matter a remote theme, both called \<^verbatim>\<open>a.css\<close>, and
  one HTML file without a stylesheet link. No root theme is configured. The path functions below agree with Node's on the paths of the example (no
  \<^verbatim>\<open>..\<close>, no trailing slash).
\<close>

definition ex_resolve :: "string \<Rightarrow> string \<Rightarrow> string" where
  "ex_resolve a b =
     (if b = ''.'' then a
      else if startsWith b ''/'' then b
      else if startsWith b ''./'' then a @ ''/'' @ drop 2 b
      else a @ ''/'' @ b)"

definition ex_join :: "string \<Rightarrow> string \<Rightarrow> string" where
  "ex_join a b = a @ ''/'' @ b"

definition ex_dirname :: "string \<Rightarrow> string" where
  "ex_dirname p = rev (drop 1 (dropWhile (\<lambda>c. c \<noteq> CHR ''/'') (rev p)))"

definition ex_basename :: "string \<Rightarrow> string" where
  "ex_basename p = rev (takeWhile (\<lambda>c. c \<noteq> CHR ''/'') (rev p))"

definition ex_basename_ext :: "string \<Rightarrow> string \<Rightarrow> string" where
  "ex_basename_ext p ext =
     (let b = ex_basename p
      in if endsWith b ext then take (length b - length ext) b else b)"

definition ex_relative :: "string \<Rightarrow> string \<Rightarrow> string" where
  "ex_relative a b = (if startsWith b (a @ ''/'') then drop (length a + 1) b else b)"

text \<open>The Markdown processor of the example puts a link to the stylesheet into its output.\<close>

definition ex_render :: "string \<Rightarrow> string option \<Rightarrow> string" where
  "ex_render body stylesheet =
     (case stylesheet of
        None \<Rightarrow> ''<html>'' @ body @ ''</html>''
      | Some href \<Rightarrow> ''<html><link rel=stylesheet href='' @ href @ ''>'' @ body @ ''</html>'')"

definition ex_config :: VivliostyleConfig where
  "ex_config =
     \<lparr>cfg_title = None, cfg_author = None, cfg_language = None, cfg_theme = None,
      cfg_outDir = None, cfg_outFile = None,
      cfg_entry = Some (Many [EStr ''a.md'', EStr ''b.md'', EStr ''c.html'']),
      cfg_entryContext = None, cfg_toc = Some (TocBool False), cfg_size = None,
      cfg_pressReady = Some True, cfg_timeout = None\<rparr>"

definition ex_world :: world where
  "ex_world =
     \<lparr>cwd = ''/work'',
      path_resolve = ex_resolve,
      path_join = ex_join,
      path_dirname = ex_dirname,
      path_basename = ex_basename,
      path_basename_ext = ex_basename_ext,
      path_relative = ex_relative,
      pkgUp = Some ''/work/package.json'',
      require_pkg = (\<lambda>p. Inr \<lparr>pkg_name = Some ''book'', pkg_author = Some ''someone''\<rparr>),
      existsSync = (\<lambda>p. p = ''/work/vivliostyle.config.js''),
      require_config = (\<lambda>p. Inr ex_config),
      resolvePkg = (\<lambda>s. None),
      readPackageJson = (\<lambda>p. Inl (Error ''ENOENT'')),
      processMarkdown = (\<lambda>p stylesheet.
               if p = ''/work/a.md''
               then Inr \<lparr>vf_title = Some ''Chapter A'',
                        vf_theme = Some ''https://example.com/a.css'',
                        vf_contents = ex_render ''A'' stylesheet\<rparr>
               else if p = ''/work/b.md''
               then Inr \<lparr>vf_title = None,
                        vf_theme = Some ''https://cdn.example.org/a.css'',
                        vf_contents = ex_render ''B'' stylesheet\<rparr>
               else Inl (Error ''ENOENT'')),
      jsdom = (\<lambda>p. if p = ''/work/c.html''
                    then Inr \<lparr>doc_title_text = Some ''Page C'', doc_stylesheet_href = None\<rparr>
                    else Inl (Error ''ENOENT'')),
      now_iso = ''2020-01-01T00:00:00.000Z''\<rparr>"

text \<open>
  The flags of a run that passes \<^verbatim>\<open>--language ja\<close> and \<^verbatim>\<open>--no-sandbox\<close> and nothing
  else, and of the same run with \<^verbatim>\<open>-c missing.config.js\<close>, a file that does not exist,
  and the input \<^verbatim>\<open>a.md\<close>.
\<close>

definition ex_flags :: BuildCliFlags where
  "ex_flags =
     \<lparr>cli_configPath = None, cli_input = None, cli_outFile = None, cli_rootDir = None,
      cli_theme = None, cli_size = None, cli_title = None, cli_language = Some ''ja'',
      cli_author = None, cli_pressReady = False, cli_verbose = None, cli_timeout = 0,
      cli_loadMode = None, cli_sandbox = False, cli_executableChromium = None\<rparr>"

definition ex_flags_missing_config :: BuildCliFlags where
  "ex_flags_missing_config =
     ex_flags\<lparr>cli_configPath := Some ''missing.config.js'', cli_input := Some ''a.md''\<rparr>"

text \<open>
  A session in which every call succeeds and the viewer announces the table of contents
  after another action, but pagination never completes.
\<close>

definition ex_session :: render_env where
  "ex_session =
     \<lparr>fails = (\<lambda>s. None),
      stat_isDirectory = (\<lambda>p. False),
      findEntryPointFile = (\<lambda>input root. ''manifest.json''),
      output_isDirectory = (\<lambda>p. False),
      source_port = 13000,
      broker_port = 13001,
      getBrokerUrl = (\<lambda>sp index bp mode sz. ''http://localhost:13001/broker/index.html''),
      puppeteer_executablePath = ''/usr/bin/chromium'',
      viewer_metadata = ''{}'',
      viewer_toc = ''[]'',
      done_events = [\<lparr>payload_a = ''nav''\<rparr>, \<lparr>payload_a = ''toc''\<rparr>],
      ready_at = None,
      pdf_bytes = ''%PDF''\<rparr>"

text \<open>What the build of the example computes before it stages anything.\<close>

definition ex_locals :: Locals where
  "ex_locals =
     mergeConfig ex_world ex_flags (Some \<lparr>pkg_name = Some ''book'', pkg_author = Some ''someone''\<rparr>)
       ''/work/vivliostyle.config.js'' (Some ex_config)"

definition ex_theme :: ParsedTheme where
  "ex_theme = \<lparr>t_type = Uri, t_name = ''a.css'', t_location = ''https://example.com/a.css''\<rparr>"

definition ex_theme_b :: ParsedTheme where
  "ex_theme_b = \<lparr>t_type = Uri, t_name = ''a.css'', t_location = ''https://cdn.example.org/a.css''\<rparr>"

definition ex_entry_a :: ParsedEntry where
  "ex_entry_a =
     \<lparr>pe_type = Markdown, pe_title = Some ''Chapter A'', pe_theme = Some ex_theme,
      pe_source_path = ''/work/a.md'', pe_source_dir = ''/work'',
      pe_target_path = ''/work/.vivliostyle/artifacts/a.html'',
      pe_target_dir = ''/work/.vivliostyle/artifacts''\<rparr>"

definition ex_entry_b :: ParsedEntry where
  "ex_entry_b =
     \<lparr>pe_type = Markdown, pe_title = None, pe_theme = Some ex_theme_b,
      pe_source_path = ''/work/b.md'', pe_source_dir = ''/work'',
      pe_target_path = ''/work/.vivliostyle/artifacts/b.html'',
      pe_target_dir = ''/work/.vivliostyle/artifacts''\<rparr>"

definition ex_entry_c :: ParsedEntry where
  "ex_entry_c =
     \<lparr>pe_type = Html, pe_title = Some ''Page C'', pe_theme = Some ex_theme,
      pe_source_path = ''/work/c.html'', pe_source_dir = ''/work'',
      pe_target_path = ''/work/.vivliostyle/artifacts/c.html'',
      pe_target_dir = ''/work/.vivliostyle/artifacts''\<rparr>"

section \<open>Page size: properties\<close>

lemma split_on_not_Nil: "split_on c s \<noteq> []"
  by (induction s) (auto split: list.splits)

lemma split_on_without: "c \<notin> set s \<Longrightarrow> split_on c s = [s]"
  by (induction s) (auto split: list.splits)

lemma split_on_first: "c \<notin> set u \<Longrightarrow> split_on c (u @ c # v) = u # split_on c v"
  by (induction u) (auto split: list.splits simp: split_on_not_Nil)

lemma length_split_on: "length (split_on c s) = Suc (count_list s c)"
  by (induction s) (auto split: list.splits simp: split_on_not_Nil)

lemma parsePageSize_three_or_more:
  assumes "2 \<le> count_list s CHR '',''"
  shows "parsePageSize (SizeStr s) = Inl (Error (''Cannot parse size: '' @ s))"
proof -
  from assms have ne: "s \<noteq> []" by auto
  have "3 \<le> length (split_on CHR '','' s)"
    using assms by (simp add: length_split_on)
  then have "drop 2 (split_on CHR '','' s) \<noteq> []" by simp
  with ne show ?thesis by (simp add: parsePageSize_def Let_def)
qed

lemma parsePageSize_two:
  assumes "CHR '','' \<notin> set u" and "CHR '','' \<notin> set v"
  shows "parsePageSize (SizeStr (u @ '','' @ v)) =
     (if u \<noteq> [] \<and> v \<noteq> [] then Inr (WidthHeight u v)
      else Inr (Format (if u = [] then ''Letter'' else u)))"
proof -
  have "split_on CHR '','' (u @ '','' @ v) = [u, v]"
    using assms by (simp add: split_on_first split_on_without)
  then show ?thesis
    by (simp add: parsePageSize_def Let_def nth_opt_def truthy_def)
qed

text \<open>
  C4, as stated, fails: a pair with an empty component is not an error. The height may
  be empty, and then the width is taken for a format name; with an empty width the
  format is Letter.
\<close>

theorem parsePageSize_empty_component_counterexample:
  "parsePageSize (SizeStr ''210mm,'') = Inr (Format ''210mm'') \<and>
   parsePageSize (SizeStr '',297mm'') = Inr (Format ''Letter'')"
  by (simp add: parsePageSize_def nth_opt_def truthy_def)

text \<open>
  C4, amended. \<^verbatim>\<open>parsePageSize("210mm,297mm")\<close> is the width and height pair and
  \<^verbatim>\<open>parsePageSize("A4")\<close> the format A4. A string of three or more comma-separated
  components (two commas or more) fails with the error "Cannot parse size". A string of
  exactly two components yields the pair when both are non-empty, and otherwise does not
  fail: it yields the format named by the first component, or Letter when that is empty.
\<close>

theorem parsePageSize_shorthand:
  "parsePageSize (SizeStr ''210mm,297mm'') = Inr (WidthHeight ''210mm'' ''297mm'') \<and>
   parsePageSize (SizeStr ''A4'') = Inr (Format ''A4'') \<and>
   (2 \<le> count_list s CHR '','' \<longrightarrow>
      parsePageSize (SizeStr s) = Inl (Error (''Cannot parse size: '' @ s))) \<and>
   (CHR '','' \<notin> set u \<and> CHR '','' \<notin> set v \<longrightarrow>
      parsePageSize (SizeStr (u @ '','' @ v)) =
        (if u \<noteq> [] \<and> v \<noteq> [] then Inr (WidthHeight u v)
         else Inr (Format (if u = [] then ''Letter'' else u))))"
proof -
  have a: "parsePageSize (SizeStr ''210mm,297mm'') = Inr (WidthHeight ''210mm'' ''297mm'')"
    by (simp add: parsePageSize_def nth_opt_def truthy_def)
  have b: "parsePageSize (SizeStr ''A4'') = Inr (Format ''A4'')"
    by (simp add: parsePageSize_def nth_opt_def truthy_def)
  show ?thesis
    using a b parsePageSize_three_or_more [of s] parsePageSize_two [of u v] by blast
qed

theorem parsePageSize_shorthand_witness:
  "parsePageSize (SizeStr ''1,2,3'') = Inl (Error ''Cannot parse size: 1,2,3'') \<and>
   parsePageSize (SizeStr ''8in,11in'') = Inr (WidthHeight ''8in'' ''11in'')"
  using parsePageSize_shorthand [of "''1,2,3''" "''8in''" "''11in''"] by simp

section \<open>Sequencing: properties\<close>

lemma bind_io_Returned: "bind_io (evs, Returned x) f = (evs @ fst (f x), snd (f x))"
  by (simp add: bind_io_def split: prod.splits)

lemma bind_io_Thrown: "bind_io (evs, Thrown e) f = (evs, Thrown e)"
  by (simp add: bind_io_def)

lemma bind_io_Pending: "bind_io (evs, Pending) f = (evs, Pending)"
  by (simp add: bind_io_def)

lemma fst_bind_io:
  "fst (bind_io m f) = (case snd m of Returned x \<Rightarrow> fst m @ fst (f x) | _ \<Rightarrow> fst m)"
  by (cases m; cases "snd m") (auto simp: bind_io_def split: prod.splits)

lemma no_save_bind:
  assumes "\<not> list_ex is_save (fst m)" and "\<And>x. \<not> list_ex is_save (fst (f x))"
  shows "\<not> list_ex is_save (fst (bind_io m f))"
  using assms by (cases "snd m") (simp_all add: fst_bind_io)

lemma not_returned_bind:
  assumes "\<And>x. \<forall>y. snd (f x) \<noteq> Returned y"
  shows "\<forall>y. snd (bind_io m f) \<noteq> Returned y"
proof (cases m)
  case (Pair evs res)
  show ?thesis
  proof (cases res)
    case (Returned x)
    with Pair assms [of x] show ?thesis by (simp add: bind_io_Returned)
  qed (simp_all add: Pair bind_io_Thrown bind_io_Pending)
qed

lemma call_ok: "fails r s = None \<Longrightarrow> call r s evs = (evs, Returned ())"
  by (simp add: call_def)

lemma no_save_call: "\<not> list_ex is_save evs \<Longrightarrow> \<not> list_ex is_save (fst (call r s evs))"
  by (simp add: call_def split: option.splits)

lemma no_save_emit: "\<not> is_save ev \<Longrightarrow> \<not> list_ex is_save (fst (emit ev))"
  by (simp add: emit_def)

lemma no_save_lift: "\<not> list_ex is_save (fst (lift x))"
  by (simp add: lift_def split: sum.splits)

section \<open>The table of contents round trip: properties\<close>

lemma deliver_closed:
  "deliver r ps =
     (if list_ex is_toc ps
      then ([ViewerRemoveListener ''done'', ViewerShowTOC False, ViewerGetTOC],
            Returned (viewer_toc r))
      else ([], Pending))"
  by (induction ps) (simp_all add: listener_def is_toc_def)

lemma loadTOC_closed:
  "loadTOC r =
     (if list_ex is_toc (done_events r)
      then ([ViewerAddListener ''done'', ViewerShowTOC True, ViewerRemoveListener ''done'',
             ViewerShowTOC False, ViewerGetTOC], Returned (viewer_toc r))
      else ([ViewerAddListener ''done'', ViewerShowTOC True], Pending))"
  by (simp add: loadTOC_def deliver_closed)













section \<open>The example project: evaluation\<close>

lemma ex_world_sel:
  "cwd ex_world = ''/work''"
  "path_resolve ex_world = ex_resolve"
  "path_join ex_world = ex_join"
  "path_dirname ex_world = ex_dirname"
  "path_basename ex_world = ex_basename"
  "path_relative ex_world = ex_relative"
  "pkgUp ex_world = Some ''/work/package.json''"
  "require_pkg ex_world p = Inr \<lparr>pkg_name = Some ''book'', pkg_author = Some ''someone''\<rparr>"
  "existsSync ex_world p = (p = ''/work/vivliostyle.config.js'')"
  "require_config ex_world p = Inr ex_config"
  "resolvePkg ex_world s = None"
  "jsdom ex_world ''/work/c.html'' = Inr \<lparr>doc_title_text = Some ''Page C'', doc_stylesheet_href = None\<rparr>"
  "processMarkdown ex_world ''/work/a.md'' ss = Inr \<lparr>vf_title = Some ''Chapter A'',
                        vf_theme = Some ''https://example.com/a.css'',
                        vf_contents = ex_render ''A'' ss\<rparr>"
  "processMarkdown ex_world ''/work/b.md'' ss = Inr \<lparr>vf_title = None,
                        vf_theme = Some ''https://cdn.example.org/a.css'',
                        vf_contents = ex_render ''B'' ss\<rparr>"
  by (simp_all add: ex_world_def)

lemma ex_resolveConfig: "resolveConfig ex_world ex_flags = Inr ex_locals"
  by (simp add: resolveConfig_def loadPkgJson_def ex_world_sel configPath_of_def ex_flags_def
        truthy_def ex_join_def collectVivliostyleConfig_def ex_locals_def Let_def)

lemma ex_locals_sel:
  "l_config ex_locals = Some ex_config"
  "l_contextDir ex_locals = ''/work''"
  "l_distDir ex_locals = ''/work/.vivliostyle''"
  "l_artifactDir ex_locals = ''/work/.vivliostyle/artifacts''"
  "l_size ex_locals = None"
  "l_timeout ex_locals = 3000"
  "l_pressReady ex_locals = True"
  "l_sandbox ex_locals = True"
  "l_language ex_locals = ''en''"
  "l_toc ex_locals = TocBool True"
  by (simp_all add: ex_locals_def mergeConfig_def Let_def ex_world_sel ex_config_def ex_flags_def
        or_default_def or_else_def truthy_def ctxPath_def ex_resolve_def ex_join_def
        startsWith_def)

lemma ex_setupThemes: "setupThemes ex_world ex_flags ex_locals = Inr []"
  by (simp add: setupThemes_def ex_locals_sel ex_config_def ex_flags_def or_else_def truthy_def)

lemma ex_parseTheme_remote:
  "parseTheme ex_world (Some ''https://example.com/a.css'') = Inr (Some ex_theme)"
  by (simp add: parseTheme_def is_http_url_def startsWith_def ex_world_sel ex_basename_def
        ex_theme_def)

lemma ex_parseTheme_remote_b:
  "parseTheme ex_world (Some ''https://cdn.example.org/a.css'') = Inr (Some ex_theme_b)"
  by (simp add: parseTheme_def is_http_url_def startsWith_def ex_world_sel ex_basename_def
        ex_theme_b_def)

lemma ex_parseTheme_none: "parseTheme ex_world None = Inr None"
  by (simp add: parseTheme_def)

lemma ex_parseEntry_a:
  "parseEntry ex_world ex_locals [] \<lparr>e_path = ''a.md'', e_title = None, e_theme = None\<rparr> =
     Inr (ex_entry_a, [ex_theme])"
  by (simp add: parseEntry_def Let_def ex_locals_sel ex_world_sel ex_resolve_def ex_relative_def
        ex_dirname_def startsWith_def endsWith_def replace_md_def parseMetadata_def
        ex_parseTheme_remote ex_parseTheme_none ex_entry_a_def or_else_def truthy_def
        ex_config_def nth_opt_def)

lemma ex_parseEntry_b:
  "parseEntry ex_world ex_locals [ex_theme] \<lparr>e_path = ''b.md'', e_title = None, e_theme = None\<rparr> =
     Inr (ex_entry_b, [ex_theme])"
  by (simp add: parseEntry_def Let_def ex_locals_sel ex_world_sel ex_resolve_def ex_relative_def
        ex_dirname_def startsWith_def endsWith_def replace_md_def parseMetadata_def
        ex_parseTheme_remote_b ex_parseTheme_none ex_entry_b_def or_else_def truthy_def
        ex_config_def nth_opt_def ex_theme_def ex_theme_b_def)

lemma ex_parseEntry_c:
  "parseEntry ex_world ex_locals [ex_theme] \<lparr>e_path = ''c.html'', e_title = None, e_theme = None\<rparr> =
     Inr (ex_entry_c, [ex_theme])"
  by (simp add: parseEntry_def Let_def ex_locals_sel ex_world_sel ex_resolve_def ex_relative_def
        ex_dirname_def startsWith_def endsWith_def replace_md_def parseMetadata_def
        ex_parseTheme_remote ex_parseTheme_none ex_entry_c_def or_else_def truthy_def
        ex_config_def nth_opt_def)

lemma ex_rawEntries:
  "map normalizeEnry (rawEntries ex_flags (l_config ex_locals)) =
     [\<lparr>e_path = ''a.md'', e_title = None, e_theme = None\<rparr>,
      \<lparr>e_path = ''b.md'', e_title = None, e_theme = None\<rparr>,
      \<lparr>e_path = ''c.html'', e_title = None, e_theme = None\<rparr>]"
  by (simp add: rawEntries_def ex_locals_sel ex_flags_def truthy_def ex_config_def)

lemma ex_prepare:
  "prepare ex_world ex_flags = Inr (ex_locals, [ex_entry_a, ex_entry_b, ex_entry_c], [ex_theme])"
  by (simp add: prepare_def ex_resolveConfig ex_setupThemes ex_rawEntries ex_parseEntry_a
        ex_parseEntry_b ex_parseEntry_c)

section \<open>Timeout of the pagination: properties\<close>

lemma no_save_deliver: "\<not> list_ex is_save (fst (deliver r ps))"
  by (simp add: deliver_closed)

lemma no_save_loadTOC: "\<not> list_ex is_save (fst (loadTOC r))"
  by (simp add: loadTOC_closed)

lemma no_save_loadMetadata: "\<not> list_ex is_save (fst (loadMetadata r))"
  by (simp add: loadMetadata_def fst_bind_io call_def return_io_def split: option.splits)

lemma waitForFunction_never:
  "never_ready r timeout \<Longrightarrow> waitForFunction r timeout = ([], Thrown TimeoutError)"
  by (auto simp: waitForFunction_def never_ready_def no_poll_ready_def split: option.splits)

lemma generatePDF_no_save:
  assumes "never_ready r (g_timeout args)"
  shows "\<not> list_ex is_save (fst (generatePDF w r args))"
  unfolding generatePDF_def Let_def waitForFunction_never [OF assms] bind_io_Thrown
  by (intro no_save_bind no_save_call no_save_emit no_save_lift no_save_loadTOC
        no_save_loadMetadata) simp_all

lemma generatePDF_not_returned:
  assumes "never_ready r (g_timeout args)"
  shows "\<forall>y. snd (generatePDF w r args) \<noteq> Returned y"
  unfolding generatePDF_def Let_def waitForFunction_never [OF assms] bind_io_Thrown
  by (intro not_returned_bind allI) simp

lemma generatePDF_timeout_open:
  assumes n: "never_ready r (g_timeout args)" and ok: "session_ok r args"
  shows "snd (generatePDF w r args) = Thrown TimeoutError \<and>
         browser_open False (fst (generatePDF w r args))"
proof -
  from ok have f: "fails r StatFile = None" "fails r FindEntryPointFile = None"
    "fails r LaunchServers = None" "fails r LaunchBrowser = None" "fails r GetVersion = None"
    "fails r OpenPage = None" "fails r PageGoto = None" "fails r WaitForViewer = None"
    "fails r LoadMetadata = None" "fails r EmulateMedia = None"
    by (simp_all add: session_ok_def)
  from ok have t: "list_ex is_toc (done_events r)"
    by (simp add: session_ok_def)
  from ok obtain outputSize where s: "outputSize_of (g_size args) = Inr outputSize"
    by (cases "outputSize_of (g_size args)") (simp_all add: session_ok_def)
  show ?thesis
    unfolding generatePDF_def Let_def waitForFunction_never [OF n] s
    by (simp add: lift_def call_ok f loadTOC_closed t bind_io_Returned bind_io_Thrown emit_def
          loadMetadata_def return_io_def)
qed

lemma fs_events_quiet:
  "list_all is_fs_event evs \<Longrightarrow> browser_open b evs = b \<and> \<not> list_ex is_save evs"
  by (induction b evs rule: browser_open.induct) simp_all

lemma fs_bind:
  assumes "list_all is_fs_event (fst m)" and "\<And>x. list_all is_fs_event (fst (f x))"
  shows "list_all is_fs_event (fst (bind_io m f))"
  using assms by (cases "snd m") (simp_all add: fst_bind_io)

lemma fs_populateEntry: "list_all is_fs_event (fst (populateEntry w d e))"
  by (simp add: populateEntry_def emit_def Let_def split: sum.splits)

lemma fs_populateEntries: "list_all is_fs_event (fst (populateEntries w d es))"
  by (induction es) (simp_all add: return_io_def fs_bind fs_populateEntry)

lemma fs_copyThemes: "list_all is_fs_event (copyThemes w d ts)"
  by (induction ts) (simp_all add: copyThemes_def)

lemma fs_stageToc: "list_all is_fs_event (stageToc w l es)"
  by (simp add: stageToc_def Let_def split: toc_val.splits)

lemma fs_stage: "list_all is_fs_event (fst (stage w l es ts))"
  unfolding stage_def
  by (intro fs_bind) (simp_all add: fs_populateEntries fs_copyThemes fs_stageToc
        generateManifest_def emit_def)

lemma browser_open_append: "browser_open b (xs @ ys) = browser_open (browser_open b xs) ys"
  by (induction b xs rule: browser_open.induct) simp_all

lemma prepare_locals:
  assumes "prepare w cliFlags = Inr (l, entries, themes)"
  shows "\<exists>pkgJson config. l = mergeConfig w cliFlags pkgJson (configPath_of w cliFlags) config"
  using assms
  by (auto simp: prepare_def resolveConfig_def Let_def split: sum.splits if_splits prod.splits)

lemma mergeConfig_timeout_on: "l_timeout (mergeConfig w cliFlags pkgJson configPath config) \<noteq> 0"
  by (simp add: mergeConfig_def Let_def split: option.splits)

lemma build_unfold:
  assumes "prepare w cliFlags = Inr (l, entries, themes)"
  shows "build w r cliFlags =
     bind_io (stage w l entries themes) (\<lambda>_.
     bind_io (generatePDF w r (pdfArgs w l)) (\<lambda>outputFile.
     ([Log ''Done'', Log (outputFile @ '' has been created''), ProcessExit 0],
      Returned ())))"
  by (simp add: build_def assms lift_def bind_io_Returned)

lemma ex_session_ok: "session_ok ex_session (pdfArgs ex_world ex_locals)"
  by (simp add: session_ok_def ex_session_def pdfArgs_def ex_locals_sel outputSize_of_def is_toc_def)

lemma ex_stage_returns:
  "snd (stage ex_world ex_locals [ex_entry_a, ex_entry_b, ex_entry_c] [ex_theme]) = Returned ()"
  by (simp add: stage_def bind_io_Returned populateEntry_def Let_def ex_entry_a_def ex_entry_b_def
        ex_entry_c_def ex_world_sel emit_def return_io_def ex_theme_def
        ex_theme_b_def generateManifest_def)

lemma fs_events_keep_browser: "list_all is_fs_event evs \<Longrightarrow> BrowserClosed \<notin> set evs"
  by (induction evs) auto

text \<open>
  C1, as stated, fails: in the example every step of the session succeeds and pagination
  never completes; the build ends with the timeout error, and \<^verbatim>\<open>browser.close()\<close> has not
  been called, so the browser is still open when the error leaves \<^verbatim>\<open>build\<close>.
\<close>

theorem build_timeout_leaves_browser_open_counterexample:
  "snd (build ex_world ex_session ex_flags) = Thrown TimeoutError \<and>
   BrowserClosed \<notin> set (fst (build ex_world ex_session ex_flags)) \<and>
   browser_open False (fst (build ex_world ex_session ex_flags))"
proof -
  obtain sevs where s:
    "stage ex_world ex_locals [ex_entry_a, ex_entry_b, ex_entry_c] [ex_theme] = (sevs, Returned ())"
    using ex_stage_returns
    by (cases "stage ex_world ex_locals [ex_entry_a, ex_entry_b, ex_entry_c] [ex_theme]") simp
  from fs_stage [of ex_world ex_locals "[ex_entry_a, ex_entry_b, ex_entry_c]" "[ex_theme]"] s
  have fs: "list_all is_fs_event sevs" by simp
  have nr: "never_ready ex_session (g_timeout (pdfArgs ex_world ex_locals))"
    by (simp add: never_ready_def no_poll_ready_def ex_session_def pdfArgs_def ex_locals_sel)
  obtain gevs gres where g:
    "generatePDF ex_world ex_session (pdfArgs ex_world ex_locals) = (gevs, gres)"
    by (cases "generatePDF ex_world ex_session (pdfArgs ex_world ex_locals)")
  from generatePDF_timeout_open [OF nr ex_session_ok, of ex_world] g
  have t: "gres = Thrown TimeoutError" and o: "browser_open False gevs" by simp_all
  have c: "BrowserClosed \<notin> set gevs"
    using g
    by (auto simp: generatePDF_def Let_def waitForFunction_def bind_io_Returned
          bind_io_Thrown call_def ex_session_def lift_def emit_def loadMetadata_def return_io_def
          loadTOC_closed is_toc_def outputSize_of_def pdfArgs_def ex_locals_sel)
  have "build ex_world ex_session ex_flags = (sevs @ gevs, Thrown TimeoutError)"
    by (simp add: build_unfold [OF ex_prepare] s g t bind_io_Returned bind_io_Thrown)
  with fs_events_keep_browser [OF fs] fs_events_quiet [OF fs, of False] c o show ?thesis
    by (simp add: browser_open_append)
qed

text \<open>
  C1, amended. If no poll finds pagination complete before the configured timeout, the
  build does not return and no PDF is saved; when staging and every earlier step of the
  session succeeded, the build ends with the timeout error of the wait, and the browser
  is still open then: it is closed only after a capture, on the path of success.
\<close>

theorem build_timeout:
  assumes p: "prepare w cliFlags = Inr (l, entries, themes)"
    and n: "no_poll_ready r (l_timeout l)"
  shows "snd (build w r cliFlags) \<noteq> Returned () \<and>
         \<not> list_ex is_save (fst (build w r cliFlags)) \<and>
         (snd (stage w l entries themes) = Returned () \<and> session_ok r (pdfArgs w l) \<longrightarrow>
            snd (build w r cliFlags) = Thrown TimeoutError \<and>
            browser_open False (fst (build w r cliFlags)))"
proof -
  from prepare_locals [OF p] have "l_timeout l \<noteq> 0"
    by (auto simp: mergeConfig_timeout_on)
  with n have nr: "never_ready r (g_timeout (pdfArgs w l))"
    by (simp add: never_ready_def pdfArgs_def)
  obtain sevs sres where s: "stage w l entries themes = (sevs, sres)"
    by (cases "stage w l entries themes")
  obtain gevs gres where g: "generatePDF w r (pdfArgs w l) = (gevs, gres)"
    by (cases "generatePDF w r (pdfArgs w l)")
  from fs_stage [of w l entries themes] s have fs: "list_all is_fs_event sevs" by simp
  from generatePDF_not_returned [OF nr, of w] g have gn: "\<forall>y. gres \<noteq> Returned y" by simp
  from generatePDF_no_save [OF nr, of w] g have gs: "\<not> list_ex is_save gevs" by simp
  have b: "build w r cliFlags =
             (case sres of Returned u \<Rightarrow> (sevs @ gevs, case gres of Thrown e \<Rightarrow> Thrown e | _ \<Rightarrow> Pending)
              | Thrown e \<Rightarrow> (sevs, Thrown e) | Pending \<Rightarrow> (sevs, Pending))"
    using gn
    by (cases sres; cases gres)
       (simp_all add: build_unfold [OF p] s g bind_io_Returned bind_io_Thrown bind_io_Pending)
  have 1: "snd (build w r cliFlags) \<noteq> Returned ()"
    by (simp add: b split: outcome.splits)
  have 2: "\<not> list_ex is_save (fst (build w r cliFlags))"
    using fs_events_quiet [OF fs] gs by (simp add: b split: outcome.splits)
  have 3: "snd (build w r cliFlags) = Thrown TimeoutError \<and>
           browser_open False (fst (build w r cliFlags))"
    if "snd (stage w l entries themes) = Returned ()" and "session_ok r (pdfArgs w l)"
  proof -
    from that(1) s have sr: "sres = Returned ()" by simp
    from generatePDF_timeout_open [OF nr that(2), of w] g
    have "gres = Thrown TimeoutError" and "browser_open False gevs" by simp_all
    with sr fs_events_quiet [OF fs, of False] show ?thesis
      by (simp add: b browser_open_append)
  qed
  from 1 2 3 show ?thesis by blast
qed

theorem build_timeout_witness:
  "snd (build ex_world ex_session ex_flags) = Thrown TimeoutError \<and>
   \<not> list_ex is_save (fst (build ex_world ex_session ex_flags)) \<and>
   browser_open False (fst (build ex_world ex_session ex_flags))"
proof -
  have n: "no_poll_ready ex_session (l_timeout ex_locals)"
    by (simp add: no_poll_ready_def ex_session_def)
  from build_timeout [OF ex_prepare n] ex_session_ok ex_stage_returns show ?thesis
    by blast
qed

section \<open>Configuration: properties\<close>

text \<open>
  C2, as stated, fails: in the example the command line sets \<^verbatim>\<open>pressReady\<close> to false and
  the config file sets it to true. By the precedence of the specification the flag of
  the command line wins and the build is not press-ready; the merge yields true.
\<close>

theorem cli_false_does_not_override_counterexample:
  "resolveConfig ex_world ex_flags = Inr ex_locals \<and>
   cli_pressReady ex_flags = False \<and>
   Option.bind (l_config ex_locals) cfg_pressReady = Some True \<and>
   spec_precedence (Some (cli_pressReady ex_flags))
     (Option.bind (l_config ex_locals) cfg_pressReady) None (Some False) = Some False \<and>
   l_pressReady ex_locals = True"
proof -
  have a: "cli_pressReady ex_flags = False"
    by (simp add: ex_flags_def)
  have b: "Option.bind (l_config ex_locals) cfg_pressReady = Some True"
    by (simp add: ex_locals_sel ex_config_def)
  show ?thesis
    by (simp add: ex_resolveConfig a ex_locals_sel ex_config_def spec_precedence_def)
qed

text \<open>
  C2, amended. For the title, the author, the page size, the timeout and the press-ready
  switch the merged value follows the precedence command line, config file, package
  metadata (title and author only), default (timeout 3000, press-ready false), where a
  value counts as supplied only if it is truthy: an empty string, the number 0 and
  \<^verbatim>\<open>false\<close> on the command line or in the config file fall through to the next source.
  A truthy flag of the command line therefore always wins.
\<close>

theorem mergeConfig_precedence:
  "l_title (mergeConfig w cliFlags pkgJson configPath config) =
     spec_precedence (supplied (cli_title cliFlags)) (supplied (Option.bind config cfg_title))
       (Option.bind pkgJson pkg_name) None \<and>
   l_author (mergeConfig w cliFlags pkgJson configPath config) =
     spec_precedence (supplied (cli_author cliFlags)) (supplied (Option.bind config cfg_author))
       (Option.bind pkgJson pkg_author) None \<and>
   l_size (mergeConfig w cliFlags pkgJson configPath config) =
     spec_precedence (supplied_size (cli_size cliFlags))
       (map_option SizeStr (Option.bind config cfg_size)) None None \<and>
   Some (l_timeout (mergeConfig w cliFlags pkgJson configPath config)) =
     spec_precedence (supplied_number (Some (cli_timeout cliFlags)))
       (supplied_number (Option.bind config cfg_timeout)) None (Some 3000) \<and>
   Some (l_pressReady (mergeConfig w cliFlags pkgJson configPath config)) =
     spec_precedence (supplied_flag (Some (cli_pressReady cliFlags)))
       (supplied_flag (Option.bind config cfg_pressReady)) None (Some False)"
proof -
  have 1: "l_title (mergeConfig w cliFlags pkgJson configPath config) =
     spec_precedence (supplied (cli_title cliFlags)) (supplied (Option.bind config cfg_title))
       (Option.bind pkgJson pkg_name) None"
    by (simp add: mergeConfig_def Let_def or_else_def supplied_def spec_precedence_def truthy_def
          split: option.splits)
  have 2: "l_author (mergeConfig w cliFlags pkgJson configPath config) =
     spec_precedence (supplied (cli_author cliFlags)) (supplied (Option.bind config cfg_author))
       (Option.bind pkgJson pkg_author) None"
    by (simp add: mergeConfig_def Let_def or_else_def supplied_def spec_precedence_def truthy_def
          split: option.splits)
  have 3: "l_size (mergeConfig w cliFlags pkgJson configPath config) =
     spec_precedence (supplied_size (cli_size cliFlags))
       (map_option SizeStr (Option.bind config cfg_size)) None None"
    by (simp add: mergeConfig_def Let_def supplied_size_def spec_precedence_def
          split: option.splits)
  have 4: "Some (l_timeout (mergeConfig w cliFlags pkgJson configPath config)) =
     spec_precedence (supplied_number (Some (cli_timeout cliFlags)))
       (supplied_number (Option.bind config cfg_timeout)) None (Some 3000)"
    by (simp add: mergeConfig_def Let_def supplied_number_def spec_precedence_def
          split: option.splits)
  have 5: "Some (l_pressReady (mergeConfig w cliFlags pkgJson configPath config)) =
     spec_precedence (supplied_flag (Some (cli_pressReady cliFlags)))
       (supplied_flag (Option.bind config cfg_pressReady)) None (Some False)"
    by (simp add: mergeConfig_def Let_def supplied_flag_def spec_precedence_def
          split: option.splits)
  from 1 2 3 4 5 show ?thesis by blast
qed

text \<open>
  The three other fields of the claim do not read the command line: the sandbox switch is
  always on, the language is the one of the config file or \<^verbatim>\<open>en\<close>, and the table of
  contents is always requested.
\<close>

lemma mergeConfig_other_fields:
  "l_sandbox (mergeConfig w cliFlags pkgJson configPath config) = True \<and>
   l_language (mergeConfig w cliFlags pkgJson configPath config) =
     or_default (Option.bind config cfg_language) ''en'' \<and>
   toc_truthy (l_toc (mergeConfig w cliFlags pkgJson configPath config))"
  by (simp add: mergeConfig_def Let_def split: option.splits)

lemma ex_missing_path:
  "configPath_of ex_world ex_flags_missing_config = ''/work/missing.config.js''"
  by (simp add: configPath_of_def ex_flags_missing_config_def ex_flags_def truthy_def ex_world_sel
        ex_resolve_def startsWith_def)

text \<open>
  C3, amended. When no file exists at the resolved path of the config file, whether the
  path was given on the command line or is the default one, \<^verbatim>\<open>collectVivliostyleConfig\<close>
  returns \<^verbatim>\<open>undefined\<close> and the resolution goes on without a config file: it fails only
  if the package descriptor cannot be loaded, and otherwise merges the flags with an
  absent config, the working directory being the base.
\<close>

theorem missing_config_is_skipped:
  assumes "\<not> existsSync w (configPath_of w cliFlags)"
  shows "collectVivliostyleConfig w (configPath_of w cliFlags) = Inr None \<and>
         resolveConfig w cliFlags =
           (case loadPkgJson w of
              Inl e \<Rightarrow> Inl e
            | Inr pkgJson \<Rightarrow> Inr (mergeConfig w cliFlags pkgJson (configPath_of w cliFlags) None)) \<and>
         l_config (mergeConfig w cliFlags pkgJson (configPath_of w cliFlags) None) = None \<and>
         l_configBaseDir (mergeConfig w cliFlags pkgJson (configPath_of w cliFlags) None) = cwd w"
  using assms
  by (simp add: collectVivliostyleConfig_def resolveConfig_def Let_def mergeConfig_def
        split: sum.splits)

theorem missing_config_is_skipped_witness:
  "\<not> existsSync ex_world (configPath_of ex_world ex_flags_missing_config) \<and>
   collectVivliostyleConfig ex_world (configPath_of ex_world ex_flags_missing_config) = Inr None \<and>
   \<not> isl (resolveConfig ex_world ex_flags_missing_config)"
proof -
  have n: "\<not> existsSync ex_world (configPath_of ex_world ex_flags_missing_config)"
    by (simp add: ex_missing_path ex_world_sel)
  from missing_config_is_skipped [OF n] n show ?thesis
    by (simp add: loadPkgJson_def ex_world_sel)
qed

text \<open>
  C3, as stated, fails: in the example \<^verbatim>\<open>-c missing.config.js\<close> names a file that does
  not exist; the resolution succeeds with no config, and so does the rest of the
  preparation of the build.
\<close>

theorem explicit_missing_config_counterexample:
  "cli_configPath ex_flags_missing_config = Some ''missing.config.js'' \<and>
   \<not> existsSync ex_world (configPath_of ex_world ex_flags_missing_config) \<and>
   (\<exists>l. resolveConfig ex_world ex_flags_missing_config = Inr l \<and> l_config l = None) \<and>
   \<not> isl (prepare ex_world ex_flags_missing_config)"
proof -
  define l where "l = mergeConfig ex_world ex_flags_missing_config
     (Some \<lparr>pkg_name = Some ''book'', pkg_author = Some ''someone''\<rparr>) ''/work/missing.config.js'' None"
  have r: "resolveConfig ex_world ex_flags_missing_config = Inr l"
    by (simp add: resolveConfig_def loadPkgJson_def ex_world_sel ex_missing_path
          collectVivliostyleConfig_def l_def)
  have s: "l_config l = None" "l_contextDir l = ''/work''"
    "l_artifactDir l = ''/work/.vivliostyle/artifacts''"
    by (simp_all add: l_def mergeConfig_def Let_def ex_world_sel ex_flags_missing_config_def
          ex_flags_def or_default_def or_else_def truthy_def ctxPath_def ex_resolve_def ex_join_def
          startsWith_def)
  have t: "setupThemes ex_world ex_flags_missing_config l = Inr []"
    by (simp add: setupThemes_def s ex_flags_missing_config_def ex_flags_def or_else_def truthy_def)
  have e: "map normalizeEnry (rawEntries ex_flags_missing_config (l_config l)) =
             [\<lparr>e_path = ''a.md'', e_title = None, e_theme = None\<rparr>]"
    by (simp add: rawEntries_def ex_flags_missing_config_def ex_flags_def truthy_def)
  have p: "\<not> isl (parseEntry ex_world l [] \<lparr>e_path = ''a.md'', e_title = None, e_theme = None\<rparr>)"
    by (simp add: parseEntry_def Let_def s ex_world_sel ex_resolve_def ex_relative_def
        ex_dirname_def startsWith_def endsWith_def replace_md_def parseMetadata_def
        ex_parseTheme_remote ex_parseTheme_none)
  have "\<not> isl (prepare ex_world ex_flags_missing_config)"
    using p by (auto simp: prepare_def r t e split: sum.splits)
  moreover have "cli_configPath ex_flags_missing_config = Some ''missing.config.js''"
    by (simp add: ex_flags_missing_config_def)
  moreover have "\<not> existsSync ex_world (configPath_of ex_world ex_flags_missing_config)"
    by (simp add: ex_missing_path ex_world_sel)
  ultimately show ?thesis
    using r s(1) by simp
qed

section \<open>Entries: properties\<close>

lemma parseEntry_result:
  assumes "parseEntry w l themes entry = Inr (pe, themes')"
  shows "pe_source_path pe = path_resolve w (l_contextDir l) (e_path entry)"
    and "pe_target_path pe = target_of w l entry"
    and "pe_type pe = (if endsWith (pe_source_path pe) ''.html'' then Html else Markdown)"
    and "themes' =
           (case pe_theme pe of
              None \<Rightarrow> themes
            | Some pt \<Rightarrow>
                if list_all (\<lambda>t. t_name t \<noteq> t_name pt) themes then themes @ [pt] else themes)"
  using assms
  by (auto simp: parseEntry_def Let_def target_of_def split: sum.splits prod.splits)

lemma parseEntries_targets:
  "parseEntries w l themes es = Inr (pes, themes') \<Longrightarrow>
     map pe_target_path pes = map (target_of w l) es"
proof (induction es arbitrary: themes pes)
  case Nil
  then show ?case by simp
next
  case (Cons e es)
  then show ?case
    by (auto split: sum.splits prod.splits dest: parseEntry_result(2))
qed

lemma find_append_first:
  "find P (xs @ ys) = (case find P xs of None \<Rightarrow> find P ys | Some x \<Rightarrow> Some x)"
  by (induction xs) auto

lemma first_wins_start:
  assumes "distinct (map t_name themes)"
  shows "first_wins themes themes"
proof -
  have "find (\<lambda>u. t_name u = t_name t) themes = Some t" if "t \<in> set themes" for t
    using assms that by (induction themes) (auto simp: image_iff)
  with assms show ?thesis
    by (simp add: first_wins_def list_all_iff)
qed

lemma first_wins_step:
  assumes "first_wins themes seq"
  shows "first_wins
           (if list_all (\<lambda>t. t_name t \<noteq> t_name pt) themes then themes @ [pt] else themes)
           (seq @ [pt])"
proof -
  from assms have d: "distinct (map t_name themes)"
    and f: "\<And>t. t \<in> set themes \<Longrightarrow> find (\<lambda>u. t_name u = t_name t) seq = Some t"
    and n: "\<And>u. u \<in> set seq \<Longrightarrow> t_name u \<in> t_name ` set themes"
    by (simp_all add: first_wins_def list_all_iff)
  show ?thesis
  proof (cases "list_all (\<lambda>t. t_name t \<noteq> t_name pt) themes")
    case True
    then have new: "t_name pt \<notin> t_name ` set themes"
      by (auto simp: list_all_iff)
    have "t_name u \<noteq> t_name pt" if "u \<in> set seq" for u
      using n [OF that] new by metis
    then have none: "find (\<lambda>u. t_name u = t_name pt) seq = None"
      by (simp add: find_None_iff)
    have 1: "distinct (map t_name (themes @ [pt]))"
      using d new by simp
    have 2: "find (\<lambda>u. t_name u = t_name t) (seq @ [pt]) = Some t" if "t \<in> set (themes @ [pt])" for t
    proof (cases "t \<in> set themes")
      case True
      from f [OF this] show ?thesis by (simp add: find_append_first)
    next
      case False
      with that have "t = pt" by simp
      with none show ?thesis by (simp add: find_append_first)
    qed
    have 3: "t_name u \<in> t_name ` set (themes @ [pt])" if "u \<in> set (seq @ [pt])" for u
      using that n by auto
    from True have eq:
      "(if list_all (\<lambda>t. t_name t \<noteq> t_name pt) themes then themes @ [pt] else themes) =
         themes @ [pt]"
      by simp
    from 1 2 3 have "first_wins (themes @ [pt]) (seq @ [pt])"
      unfolding first_wins_def list_all_iff set_map by blast
    then show ?thesis by (simp only: eq)
  next
    case False
    then obtain t0 where t0: "t0 \<in> set themes" "t_name t0 = t_name pt"
      by (auto simp: list_all_iff)
    have 2: "find (\<lambda>u. t_name u = t_name t) (seq @ [pt]) = Some t" if "t \<in> set themes" for t
      using f [OF that] by (simp add: find_append_first)
    have 3: "t_name u \<in> t_name ` set themes" if "u \<in> set (seq @ [pt])" for u
    proof (cases "u \<in> set seq")
      case True
      from n [OF this] show ?thesis .
    next
      case False
      with that have "u = pt" by simp
      with t0 show ?thesis by (metis imageI)
    qed
    from False have eq:
      "(if list_all (\<lambda>t. t_name t \<noteq> t_name pt) themes then themes @ [pt] else themes) =
         themes"
      by simp
    from d 2 3 have "first_wins themes (seq @ [pt])"
      unfolding first_wins_def list_all_iff set_map by blast
    then show ?thesis by (simp only: eq)
  qed
qed

lemma resolved_themes_Cons:
  "resolved_themes (pe # pes) =
     (case pe_theme pe of None \<Rightarrow> [] | Some t \<Rightarrow> [t]) @ resolved_themes pes"
  by (simp add: resolved_themes_def)

lemma first_wins_add:
  assumes "first_wins themes seq"
  shows "first_wins
           (case p of
              None \<Rightarrow> themes
            | Some pt \<Rightarrow>
                if list_all (\<lambda>t. t_name t \<noteq> t_name pt) themes then themes @ [pt] else themes)
           (seq @ (case p of None \<Rightarrow> [] | Some t \<Rightarrow> [t]))"
proof (cases p)
  case None
  with assms show ?thesis by simp
next
  case (Some pt)
  with first_wins_step [OF assms, of pt] show ?thesis by simp
qed

lemma themes_extended:
  "\<exists>ys. (case p of
            None \<Rightarrow> themes
          | Some pt \<Rightarrow>
              if list_all (\<lambda>t. t_name t \<noteq> t_name pt) themes then themes @ [pt] else themes) =
         themes @ ys"
  by (cases p) simp_all

lemma parseEntries_Cons_Inr:
  assumes "parseEntries w l themes (e # es) = Inr (pes, themes')"
  obtains pe th1 ps where "parseEntry w l themes e = Inr (pe, th1)"
    and "parseEntries w l th1 es = Inr (ps, themes')" and "pes = pe # ps"
proof (cases "parseEntry w l themes e")
  case (Inl err)
  with assms show ?thesis by simp
next
  case (Inr x)
  obtain pe th1 where x: "x = (pe, th1)" by (cases x)
  show ?thesis
  proof (cases "parseEntries w l th1 es")
    case (Inl err)
    with assms Inr x show ?thesis by simp
  next
    case r: (Inr y)
    obtain ps th2 where y: "y = (ps, th2)" by (cases y)
    from assms Inr x r y have "pes = pe # ps" and "themes' = th2" by simp_all
    with that Inr x r y show ?thesis by simp
  qed
qed

lemma parseEntries_first_wins:
  "first_wins themes seq \<Longrightarrow> parseEntries w l themes es = Inr (pes, themes') \<Longrightarrow>
     first_wins themes' (seq @ resolved_themes pes) \<and> (\<exists>ys. themes' = themes @ ys)"
proof (induction es arbitrary: themes seq pes)
  case Nil
  then show ?case by (simp add: resolved_themes_def)
next
  case (Cons e es)
  from Cons.prems(2) obtain pe th1 ps where
    1: "parseEntry w l themes e = Inr (pe, th1)" and
    2: "parseEntries w l th1 es = Inr (ps, themes')" and
    3: "pes = pe # ps"
    by (rule parseEntries_Cons_Inr)
  note th1 = parseEntry_result(4) [OF 1]
  have a: "first_wins th1 (seq @ (case pe_theme pe of None \<Rightarrow> [] | Some t \<Rightarrow> [t]))"
    unfolding th1 by (rule first_wins_add [OF Cons.prems(1)])
  obtain ys where b: "th1 = themes @ ys"
    unfolding th1 using themes_extended [where p = "pe_theme pe" and themes = themes] by blast
  from Cons.IH [OF a 2] obtain zs where
    c: "first_wins themes' ((seq @ (case pe_theme pe of None \<Rightarrow> [] | Some t \<Rightarrow> [t])) @ resolved_themes ps)"
    and d: "themes' = th1 @ zs"
    by blast
  from c have "first_wins themes' (seq @ resolved_themes pes)"
    by (simp add: 3 resolved_themes_Cons)
  moreover from b d have "themes' = themes @ (ys @ zs)" by simp
  ultimately show ?case by blast
qed

lemma setupThemes_length: "setupThemes w cliFlags l = Inr themes0 \<Longrightarrow> length themes0 \<le> 1"
  by (auto simp: setupThemes_def Let_def split: sum.splits option.splits if_splits)

lemma prepare_Inr:
  assumes "prepare w cliFlags = Inr (l, entries, themes)"
  obtains themes0 where "resolveConfig w cliFlags = Inr l"
    and "setupThemes w cliFlags l = Inr themes0"
    and "parseEntries w l themes0 (map normalizeEnry (rawEntries cliFlags (l_config l))) =
           Inr (entries, themes)"
proof (cases "resolveConfig w cliFlags")
  case (Inl e)
  with assms show ?thesis by (simp add: prepare_def)
next
  case (Inr l')
  show ?thesis
  proof (cases "setupThemes w cliFlags l'")
    case (Inl e)
    with assms Inr show ?thesis by (simp add: prepare_def)
  next
    case s: (Inr themes0)
    show ?thesis
    proof (cases "parseEntries w l' themes0 (map normalizeEnry (rawEntries cliFlags (l_config l')))")
      case (Inl e)
      with assms Inr s show ?thesis by (simp add: prepare_def)
    next
      case p: (Inr x)
      obtain es ts where x: "x = (es, ts)" by (cases x)
      from assms Inr s p x have "l' = l \<and> es = entries \<and> ts = themes"
        by (simp add: prepare_def split: if_splits)
      with that Inr s p x show ?thesis by simp
    qed
  qed
qed

text \<open>
  C6. When the preparation of a build succeeds, the names of the theme list are distinct.
  The list starts with the root theme, if one is configured, and each of its records is
  the first record of its name in the sequence of the root theme followed by the themes
  the entries resolved to, in entry order: of two themes of one name the one resolved
  first is kept. Every resolved theme has its name in the list.
\<close>

theorem themes_first_occurrence_wins:
  assumes "prepare w cliFlags = Inr (l, entries, themes)"
  shows "distinct (map t_name themes) \<and>
         (\<exists>themes0. setupThemes w cliFlags l = Inr themes0 \<and>
            take (length themes0) themes = themes0 \<and>
            first_wins themes (themes0 @ resolved_themes entries))"
proof -
  from assms obtain themes0 where
    s: "setupThemes w cliFlags l = Inr themes0" and
    p: "parseEntries w l themes0 (map normalizeEnry (rawEntries cliFlags (l_config l))) =
          Inr (entries, themes)"
    by (rule prepare_Inr)
  from setupThemes_length [OF s] have "distinct (map t_name themes0)"
    by (cases themes0) auto
  from parseEntries_first_wins [OF first_wins_start [OF this] p] obtain ys where
    f: "first_wins themes (themes0 @ resolved_themes entries)" and e: "themes = themes0 @ ys"
    by blast
  from f have "distinct (map t_name themes)" by (simp add: first_wins_def)
  moreover from e have "take (length themes0) themes = themes0" by simp
  ultimately show ?thesis using s f by blast
qed

theorem themes_first_occurrence_wins_witness:
  "distinct (map t_name [ex_theme]) \<and>
   first_wins [ex_theme] [ex_theme, ex_theme_b, ex_theme] \<and>
   t_name ex_theme_b = t_name ex_theme \<and> ex_theme_b \<noteq> ex_theme"
proof -
  have "resolved_themes [ex_entry_a, ex_entry_b, ex_entry_c] = [ex_theme, ex_theme_b, ex_theme]"
    by (simp add: resolved_themes_def ex_entry_a_def ex_entry_b_def ex_entry_c_def)
  with themes_first_occurrence_wins [OF ex_prepare] ex_setupThemes show ?thesis
    by (simp add: ex_theme_def ex_theme_b_def)
qed









text \<open>Paths that end in \<^verbatim>\<open>.htm\<close>, \<^verbatim>\<open>.txt\<close> or \<^verbatim>\<open>.HTML\<close> do not end in \<^verbatim>\<open>.html\<close>.\<close>

lemma other_suffixes_are_markdown:
  "\<not> endsWith ''/work/page.htm'' ''.html'' \<and> \<not> endsWith ''/work/notes.txt'' ''.html'' \<and>
   \<not> endsWith ''/work/PAGE.HTML'' ''.html''"
  by (simp add: endsWith_def)

lemma stage_writes_manifest:
  assumes "snd (stage w l entries themes) = Returned ()"
  shows "WriteFile (path_join w (l_distDir l) ''manifest.json'')
           (Json (manifest_json (manifest_of (manifestOptions w l entries))))
         \<in> set (fst (stage w l entries themes))"
proof -
  obtain pevs pres where p: "populateEntries w (l_distDir l) entries = (pevs, pres)"
    by (cases "populateEntries w (l_distDir l) entries")
  show ?thesis
  proof (cases pres)
    case (Returned u)
    with p show ?thesis
      by (simp add: stage_def bind_io_Returned generateManifest_def emit_def)
  next
    case (Thrown e)
    with p assms show ?thesis
      by (simp add: stage_def bind_io_Returned bind_io_Thrown)
  next
    case Pending
    with p assms show ?thesis
      by (simp add: stage_def bind_io_Returned bind_io_Pending)
  qed
qed

text \<open>
  C5. When the preparation of a build succeeds, the reading order of the manifest has
  one item for each parsed entry, in the order of the entries; the items are as many as
  the raw entries, and the href of the item at each position is computed from the path
  of the raw entry at that position alone, whatever titles and themes were resolved.
  The JSON value of the manifest carries this list as \<^verbatim>\<open>readingOrder\<close>, and a staging
  that returns has written it to \<^verbatim>\<open>manifest.json\<close>.
\<close>

theorem manifest_reading_order:
  assumes "prepare w cliFlags = Inr (l, entries, themes)"
  shows "mf_readingOrder (manifest_of (manifestOptions w l entries)) =
           map (\<lambda>pe. \<lparr>ri_href = path_relative w (l_distDir l) (pe_target_path pe),
                       ri_type = ''text/html'', ri_title = pe_title pe\<rparr>) entries \<and>
         map ri_href (mf_readingOrder (manifest_of (manifestOptions w l entries))) =
           map (\<lambda>e. path_relative w (l_distDir l) (target_of w l (normalizeEnry e)))
             (rawEntries cliFlags (l_config l)) \<and>
         length (mf_readingOrder (manifest_of (manifestOptions w l entries))) =
           length (rawEntries cliFlags (l_config l)) \<and>
         json_prop ''readingOrder'' (manifest_json (manifest_of (manifestOptions w l entries))) =
           Some (JArray (map reading_item_json
                   (mf_readingOrder (manifest_of (manifestOptions w l entries))))) \<and>
         (snd (stage w l entries themes) = Returned () \<longrightarrow>
            WriteFile (path_join w (l_distDir l) ''manifest.json'')
              (Json (manifest_json (manifest_of (manifestOptions w l entries))))
            \<in> set (fst (stage w l entries themes)))"
proof -
  from assms obtain themes0 where
    p: "parseEntries w l themes0 (map normalizeEnry (rawEntries cliFlags (l_config l))) =
          Inr (entries, themes)"
    by (rule prepare_Inr)
  have 1: "mf_readingOrder (manifest_of (manifestOptions w l entries)) =
           map (\<lambda>pe. \<lparr>ri_href = path_relative w (l_distDir l) (pe_target_path pe),
                       ri_type = ''text/html'', ri_title = pe_title pe\<rparr>) entries"
    by (simp add: manifest_of_def manifestOptions_def Let_def comp_def)
  have "map ri_href (mf_readingOrder (manifest_of (manifestOptions w l entries))) =
          map (path_relative w (l_distDir l)) (map pe_target_path entries)"
    by (simp add: 1 comp_def)
  also have "\<dots> = map (path_relative w (l_distDir l))
                     (map (target_of w l) (map normalizeEnry (rawEntries cliFlags (l_config l))))"
    by (simp only: parseEntries_targets [OF p])
  finally have 2: "map ri_href (mf_readingOrder (manifest_of (manifestOptions w l entries))) =
           map (\<lambda>e. path_relative w (l_distDir l) (target_of w l (normalizeEnry e)))
             (rawEntries cliFlags (l_config l))"
    by (simp add: comp_def)
  from 2 have 3: "length (mf_readingOrder (manifest_of (manifestOptions w l entries))) =
           length (rawEntries cliFlags (l_config l))"
    by (metis length_map)
  have 4: "json_prop ''readingOrder'' (manifest_json (manifest_of (manifestOptions w l entries))) =
           Some (JArray (map reading_item_json
                   (mf_readingOrder (manifest_of (manifestOptions w l entries)))))"
    by (simp add: manifest_json_def)
  from 1 2 3 4 stage_writes_manifest [of w l entries themes] show ?thesis
    by blast
qed

theorem manifest_reading_order_witness:
  "map ri_href (mf_readingOrder
      (manifest_of (manifestOptions ex_world ex_locals [ex_entry_a, ex_entry_b, ex_entry_c]))) =
     [''artifacts/a.html'', ''artifacts/b.html'', ''artifacts/c.html''] \<and>
   rawEntries ex_flags (l_config ex_locals) = [EStr ''a.md'', EStr ''b.md'', EStr ''c.html'']"
proof -
  have r: "rawEntries ex_flags (l_config ex_locals) = [EStr ''a.md'', EStr ''b.md'', EStr ''c.html'']"
    by (simp add: rawEntries_def ex_locals_sel ex_flags_def truthy_def ex_config_def)
  have t: "target_of ex_world ex_locals \<lparr>e_path = ''a.md'', e_title = None, e_theme = None\<rparr> =
             ''/work/.vivliostyle/artifacts/a.html''"
    "target_of ex_world ex_locals \<lparr>e_path = ''b.md'', e_title = None, e_theme = None\<rparr> =
             ''/work/.vivliostyle/artifacts/b.html''"
    "target_of ex_world ex_locals \<lparr>e_path = ''c.html'', e_title = None, e_theme = None\<rparr> =
             ''/work/.vivliostyle/artifacts/c.html''"
    by (simp_all add: target_of_def ex_locals_sel ex_world_sel ex_resolve_def ex_relative_def
          startsWith_def endsWith_def replace_md_def)
  have "map ri_href (mf_readingOrder
          (manifest_of (manifestOptions ex_world ex_locals [ex_entry_a, ex_entry_b, ex_entry_c]))) =
        map (\<lambda>e. path_relative ex_world (l_distDir ex_locals)
                    (target_of ex_world ex_locals (normalizeEnry e)))
          (rawEntries ex_flags (l_config ex_locals))"
    by (rule conjunct1 [OF conjunct2 [OF manifest_reading_order [OF ex_prepare]]])
  also have "\<dots> = [''artifacts/a.html'', ''artifacts/b.html'', ''artifacts/c.html'']"
    by (simp only: r list.map normalizeEnry.simps t)
       (simp add: ex_locals_sel ex_world_sel ex_relative_def startsWith_def)
  finally show ?thesis using r by simp
qed

text \<open>
  C7 requires that an entry with no theme of its own and none in its document gets the
  root theme, or none if no root theme is configured, and never the theme found in the
  document of another entry. The code falls back on \<^verbatim>\<open>themes[0]\<close>, which is the root theme
  only if there is one. In the example no root theme is configured, \<^verbatim>\<open>c.html\<close> has no
  stylesheet link and its entry no theme, and \<^verbatim>\<open>c.html\<close> is given the theme found in the
  front matter of \<^verbatim>\<open>a.md\<close>.
\<close>

theorem entry_without_theme_gets_theme_of_first_entry:
  "setupThemes ex_world ex_flags ex_locals = Inr [] \<and>
   parseMetadata ex_world Markdown ''/work/a.md'' = Inr (Some ''Chapter A'', Some ex_theme) \<and>
   parseMetadata ex_world Html ''/work/c.html'' = Inr (Some ''Page C'', None) \<and>
   prepare ex_world ex_flags = Inr (ex_locals, [ex_entry_a, ex_entry_b, ex_entry_c], [ex_theme]) \<and>
   pe_source_path ex_entry_c = ''/work/c.html'' \<and>
   pe_theme ex_entry_c = Some ex_theme"
proof -
  have 1: "parseMetadata ex_world Markdown ''/work/a.md'' = Inr (Some ''Chapter A'', Some ex_theme)"
    by (simp add: parseMetadata_def ex_world_sel ex_parseTheme_remote)
  have 2: "parseMetadata ex_world Html ''/work/c.html'' = Inr (Some ''Page C'', None)"
    by (simp add: parseMetadata_def ex_world_sel ex_parseTheme_none or_else_def truthy_def)
  have 3: "pe_source_path ex_entry_c = ''/work/c.html''" "pe_theme ex_entry_c = Some ex_theme"
    by (simp_all add: ex_entry_c_def)
  from 1 2 3 ex_setupThemes ex_prepare show ?thesis by simp
qed

text \<open>
  What \<^verbatim>\<open>parseEntry\<close> computes: the title is the first truthy one of the title of the
  entry, the title of the document and the title of the config file; the theme is the
  theme of the entry, else the theme of the document, else the first of the list.
\<close>

lemma parseEntry_precedence:
  assumes "parseEntry w l themes entry = Inr (pe, themes')"
  shows "\<exists>title theme entryTheme.
           parseMetadata w (pe_type pe) (pe_source_path pe) = Inr (title, theme) \<and>
           parseTheme w (e_theme entry) = Inr entryTheme \<and>
           pe_title pe = or_else (or_else (e_title entry) title) (Option.bind (l_config l) cfg_title) \<and>
           pe_theme pe =
             (case entryTheme of
                Some t \<Rightarrow> Some t
              | None \<Rightarrow> (case theme of Some t \<Rightarrow> Some t | None \<Rightarrow> nth_opt themes 0))"
  using assms
  by (auto simp: parseEntry_def Let_def split: sum.splits prod.splits)

section \<open>Manifest: properties\<close>

text \<open>
  What \<^verbatim>\<open>generateManifest\<close> writes: the manifest always has the property \<^verbatim>\<open>resources\<close>, and
  the array holds the link to \<^verbatim>\<open>toc.html\<close> exactly if the option \<^verbatim>\<open>toc\<close> is truthy.
\<close>

lemma generateManifest_resources:
  "json_prop ''resources'' (manifest_json (manifest_of options)) =
     Some (JArray (map resource_json (mf_resources (manifest_of options)))) \<and>
   mf_resources (manifest_of options) =
     (if toc_requested (mo_toc options)
      then [\<lparr>rs_href = ''toc.html'', rs_rel = ''contents'', rs_type = ''text/html'',
             rs_title = ''Table of Contents''\<rparr>]
      else []) \<and>
   generateManifest outputPath options =
     ([WriteFile outputPath (Json (manifest_json (manifest_of options)))], Returned ())"
  by (simp add: manifest_json_def manifest_of_def generateManifest_def emit_def)

text \<open>
  The option that \<^verbatim>\<open>build\<close> passes is \<^verbatim>\<open>config?.toc || true\<close>, which is truthy whatever the
  config file says: the manifest of every build links \<^verbatim>\<open>toc.html\<close>.
\<close>

lemma build_always_links_toc:
  assumes "prepare w cliFlags = Inr (l, entries, themes)"
  shows "toc_requested (mo_toc (manifestOptions w l entries)) \<and>
         mf_resources (manifest_of (manifestOptions w l entries)) =
           [\<lparr>rs_href = ''toc.html'', rs_rel = ''contents'', rs_type = ''text/html'',
             rs_title = ''Table of Contents''\<rparr>]"
proof -
  from prepare_locals [OF assms] have "toc_truthy (l_toc l)"
    by (auto simp: mergeConfig_other_fields)
  then have "toc_requested (mo_toc (manifestOptions w l entries))"
    by (simp add: manifestOptions_def toc_requested_def)
  with generateManifest_resources [of "manifestOptions w l entries"] show ?thesis
    by simp
qed

text \<open>
  C8 requires that the manifest has no resource that refers to \<^verbatim>\<open>toc.html\<close> when the
  configuration disables the table of contents. \<^verbatim>\<open>generateManifest\<close> honours its option,
  but \<^verbatim>\<open>build\<close> never passes a falsy one. In the example the config file says
  \<^verbatim>\<open>toc: false\<close>, and the manifest that the build writes has the array \<^verbatim>\<open>resources\<close> with
  the link to \<^verbatim>\<open>toc.html\<close>; the build also writes \<^verbatim>\<open>toc.html\<close>.
\<close>

theorem config_toc_false_still_links_toc:
  "Option.bind (l_config ex_locals) cfg_toc = Some (TocBool False) \<and>
   prepare ex_world ex_flags = Inr (ex_locals, [ex_entry_a, ex_entry_b, ex_entry_c], [ex_theme]) \<and>
   json_prop ''resources''
     (manifest_json (manifest_of
        (manifestOptions ex_world ex_locals [ex_entry_a, ex_entry_b, ex_entry_c]))) =
     Some (JArray [JObject [(''href'', JString ''toc.html''), (''rel'', JString ''contents''),
                            (''type'', JString ''text/html''),
                            (''title'', JString ''Table of Contents'')]]) \<and>
   WriteFile ''/work/.vivliostyle/manifest.json''
     (Json (manifest_json (manifest_of
        (manifestOptions ex_world ex_locals [ex_entry_a, ex_entry_b, ex_entry_c]))))
     \<in> set (fst (stage ex_world ex_locals [ex_entry_a, ex_entry_b, ex_entry_c] [ex_theme])) \<and>
   list_ex (\<lambda>ev. case ev of WriteFile p c \<Rightarrow> p = ''/work/.vivliostyle/toc.html'' | _ \<Rightarrow> False)
     (fst (stage ex_world ex_locals [ex_entry_a, ex_entry_b, ex_entry_c] [ex_theme]))"
proof -
  have 1: "Option.bind (l_config ex_locals) cfg_toc = Some (TocBool False)"
    by (simp add: ex_locals_sel ex_config_def)
  have 2: "json_prop ''resources''
     (manifest_json (manifest_of
        (manifestOptions ex_world ex_locals [ex_entry_a, ex_entry_b, ex_entry_c]))) =
     Some (JArray [JObject [(''href'', JString ''toc.html''), (''rel'', JString ''contents''),
                            (''type'', JString ''text/html''),
                            (''title'', JString ''Table of Contents'')]])"
    using build_always_links_toc [OF ex_prepare]
          generateManifest_resources
            [of "manifestOptions ex_world ex_locals [ex_entry_a, ex_entry_b, ex_entry_c]"]
    by (simp add: resource_json_def)
  have 3: "WriteFile (path_join ex_world (l_distDir ex_locals) ''manifest.json'')
     (Json (manifest_json (manifest_of
        (manifestOptions ex_world ex_locals [ex_entry_a, ex_entry_b, ex_entry_c]))))
     \<in> set (fst (stage ex_world ex_locals [ex_entry_a, ex_entry_b, ex_entry_c] [ex_theme]))"
    by (rule stage_writes_manifest [OF ex_stage_returns])
  have 4: "path_join ex_world (l_distDir ex_locals) ''manifest.json'' =
             ''/work/.vivliostyle/manifest.json''"
    by (simp add: ex_world_sel ex_locals_sel ex_join_def)
  have 5: "list_ex (\<lambda>ev. case ev of WriteFile p c \<Rightarrow> p = ''/work/.vivliostyle/toc.html'' | _ \<Rightarrow> False)
     (fst (stage ex_world ex_locals [ex_entry_a, ex_entry_b, ex_entry_c] [ex_theme]))"
    by (simp add: stage_def bind_io_Returned populateEntry_def Let_def ex_entry_a_def ex_entry_b_def
        ex_entry_c_def ex_world_sel emit_def return_io_def ex_theme_def ex_theme_b_def
        generateManifest_def stageToc_def ex_locals_sel ex_join_def copyThemes_def)
  from 1 2 3 4 5 ex_prepare show ?thesis by simp
qed

end
